theory Spec2Isabelle
  imports Complex_Main
begin

section \<open>The ROS wrapper of the virtual Pepper (qibullet/ros_wrapper.py)\<close>

text \<open>
  The module is glue between two collaborators: the simulated robot (the object
  \<open>virtual_pepper\<close> and the \<open>pybullet\<close> module) and the ROS middleware (\<open>rospy\<close>,
  \<open>roslaunch\<close>, \<open>tf2_ros\<close>). The embedding keeps the wrapper's own state as a record,
  turns every call it makes on a collaborator into an event of a trace, and takes what a
  collaborator returns (or raises) as an input. Python floats are modelled as \<open>real\<close>;
  the only arithmetic the module performs on them is the speed of \<open>_moveToCallback\<close>
  and the constant angle increment of the laser scan.
\<close>

subsection \<open>Exceptions\<close>

text \<open>
  The exception classes the module names (\<open>AssertionError\<close>, \<open>IOError\<close>,
  \<open>pybullet.error\<close>), any other subclass of \<open>Exception\<close>, and
  the exceptions that derive from \<open>BaseException\<close> only (\<open>KeyboardInterrupt\<close>,
  \<open>SystemExit\<close>), which \<open>except Exception\<close> does not catch. The string is what
  \<open>str(e)\<close> gives.
\<close>

datatype exn =
    AssertionError
  | IOError string
  | PybulletError string
  | OtherException string
  | NonException string

fun str_exn :: "exn \<Rightarrow> string" where
  "str_exn AssertionError = ''''"
| "str_exn (IOError m) = m"
| "str_exn (PybulletError m) = m"
| "str_exn (OtherException m) = m"
| "str_exn (NonException m) = m"

fun is_Exception :: "exn \<Rightarrow> bool" where
  "is_Exception (NonException m) = False"
| "is_Exception e = True"

subsection \<open>Messages\<close>

type_synonym rostime = nat

record vector3 =
  v3_x :: real
  v3_y :: real
  v3_z :: real

record quaternion =
  q_x :: real
  q_y :: real
  q_z :: real
  q_w :: real

record header =
  stamp :: rostime
  frame_id :: string

text \<open>Incoming command messages: the fields the callbacks read.\<close>

record twist =
  twist_linear :: vector3
  twist_angular :: vector3

record joint_angles_with_speed =
  joint_names :: "string list"
  joint_angles :: "real list"
  speed :: real
  speeds :: "real list"

record pose =
  position :: vector3
  orientation :: quaternion

record pose_stamped_with_speed =
  pose_stamped_pose :: pose
  speed_percentage :: real
  referenceFrame :: nat

text \<open>Outgoing messages: the fields the wrapper assigns; every other field keeps the
  default of the message class.\<close>

record joint_state =
  js_header :: header
  js_name :: "string list"
  js_position :: "real list"

record laser_scan =
  scan_header :: header
  angle_min :: real
  angle_max :: real
  angle_increment :: real
  range_min :: real
  range_max :: real
  ranges :: "real list"

record transform_stamped =
  tf_header :: header
  child_frame_id :: string
  translation :: vector3
  rotation :: quaternion

record odometry =
  odom_header :: header
  odom_child_frame_id :: string
  pose_position :: vector3
  pose_orientation :: quaternion
  twist_linear_x :: real
  twist_linear_y :: real
  twist_angular_z :: real

type_synonym frame = "nat list"

record image_msg =
  image_data :: frame
  image_frame_id :: string
  encoding :: string

record camera_info =
  distortion_model :: string
  info_frame_id :: string
  width :: nat
  height :: nat
  info_D :: "real list"
  info_K :: "real list"
  info_R :: "real list"
  info_P :: "real list"

datatype msg =
    JointState joint_state
  | LaserScan laser_scan
  | Odometry odometry
  | ImageMsg image_msg
  | CameraInfo camera_info

datatype msg_type =
    T_Image | T_CameraInfo | T_LaserScan | T_JointState | T_Odometry
  | T_JointAnglesWithSpeed | T_Twist | T_PoseStampedWithSpeed | T_Empty

datatype callback =
    JointAnglesCallback | VelocityCallback | MoveToCallback | KillMoveCallback

subsection \<open>Calls on the collaborators\<close>

text \<open>
  The velocity argument of \<open>setAngles\<close> is a list or a single number. The keyword
  arguments \<open>frame\<close> and \<open>speed\<close> of \<open>moveTo\<close> are \<open>None\<close> when the call leaves them
  out; its last argument is \<open>_async\<close>.
\<close>

datatype velocity = VelocityList "real list" | VelocityScalar real

datatype control_call =
    Move real real real
  | SetAngles "string list" "real list" velocity
  | MoveTo real real real "nat option" "real option" bool

type_synonym sim_ref = nat

datatype event =
    SimCall sim_ref control_call
  | Sleep real
  | Publish string msg
  | SendTransform transform_stamped
  | Print string
  | Join
  | RoslauncherStop
  | AtexitRegister
  | InitNode string
  | Advertise string msg_type nat
  | Subscribe string msg_type callback
  | SetParam string string
  | RoslauncherStart
  | RoslauncherLaunch string string
  | ThreadStart

subsection \<open>The wrapper's state\<close>

text \<open>
  \<open>spin_thread\<close> is \<open>None\<close>, a \<open>Thread\<close>, or (after an assignment from outside) some
  other object. The attributes that \<open>launchWrapper\<close> creates do not exist before it has
  run: \<open>launched\<close> is \<open>None\<close> until then. A publisher is identified by the topic it
  advertises. The stateless helper objects \<open>image_bridge\<close> and
  \<open>transform_broadcaster\<close> carry no data and have no field.
\<close>

datatype thread_slot = ThreadNone | ThreadObj | OtherObj

datatype roslaunch = ROSLaunch

record launch_attrs =
  virtual_pepper :: sim_ref
  ros_namespace :: string
  frequency :: real
  front_cam_pub :: string
  front_info_pub :: string
  bottom_cam_pub :: string
  bottom_info_pub :: string
  depth_cam_pub :: string
  depth_info_pub :: string
  laser_pub :: string
  joint_states_pub :: string
  odom_pub :: string

record wrapper =
  spin_thread :: thread_slot
  wrapper_termination :: bool
  front_info_msg :: "(string \<times> string) list"
  bottom_info_msg :: "(string \<times> string) list"
  depth_info_msg :: "(string \<times> string) list"
  roslauncher :: "roslaunch option"
  launched :: "launch_attrs option"

subsection \<open>Parameters: what the module imports from the rest of the package\<close>

text \<open>
  \<open>PepperBaseController.MAX_LINEAR_VELOCITY\<close>, \<open>MIN_LINEAR_VELOCITY\<close> and the camera
  identifiers \<open>PepperVirtual.ID_CAMERA_TOP\<close>, \<open>ID_CAMERA_BOTTOM\<close>, \<open>ID_CAMERA_DEPTH\<close>
  are defined in other modules; they are parameters here. So are the two conversion
  functions of \<open>pybullet\<close>, typed by the shape of what they take and return.
\<close>

record package_consts =
  MAX_LINEAR_VELOCITY :: real
  MIN_LINEAR_VELOCITY :: real
  ID_CAMERA_TOP :: int
  ID_CAMERA_BOTTOM :: int
  ID_CAMERA_DEPTH :: int

record pybullet =
  getQuaternionFromEuler :: "real \<times> real \<times> real \<Rightarrow> real \<times> real \<times> real \<times> real"
  getEulerFromQuaternion :: "real \<times> real \<times> real \<times> real \<Rightarrow> real \<times> real \<times> real"

subsection \<open>The command callbacks\<close>

text \<open>Each callback returns the calls it makes on \<open>self.virtual_pepper\<close>, in order.\<close>

definition jointAnglesCallback :: "launch_attrs \<Rightarrow> joint_angles_with_speed \<Rightarrow> event list" where
  "jointAnglesCallback a m =
     (let joint_list = joint_names m;
          position_list = joint_angles m;
          velocity = (if length (speeds m) \<noteq> 0 then VelocityList (speeds m)
                      else VelocityScalar (speed m))
      in [SimCall (virtual_pepper a) (SetAngles joint_list position_list velocity)])"

definition velocityCallback :: "launch_attrs \<Rightarrow> twist \<Rightarrow> event list" where
  "velocityCallback a m =
     [SimCall (virtual_pepper a)
        (Move (v3_x (twist_linear m)) (v3_y (twist_linear m)) (v3_z (twist_angular m)))]"

definition moveToCallback ::
  "package_consts \<Rightarrow> pybullet \<Rightarrow> launch_attrs \<Rightarrow> pose_stamped_with_speed \<Rightarrow> event list" where
  "moveToCallback k pb a m =
     (let x = v3_x (position (pose_stamped_pose m));
          y = v3_y (position (pose_stamped_pose m));
          ori = orientation (pose_stamped_pose m);
          theta = snd (snd (getEulerFromQuaternion pb (q_x ori, q_y ori, q_z ori, q_w ori)));
          speed = speed_percentage m * MAX_LINEAR_VELOCITY k + MIN_LINEAR_VELOCITY k;
          frame = referenceFrame m
      in [SimCall (virtual_pepper a) (MoveTo x y theta (Some frame) (Some speed) True)])"

definition killMoveCallback :: "launch_attrs \<Rightarrow> unit \<Rightarrow> event list" where
  "killMoveCallback a m = [SimCall (virtual_pepper a) (MoveTo 0 0 0 None None True)]"

subsection \<open>What the collaborators give during one iteration of the main loop\<close>

text \<open>
  A laser accessor returns a list of ranges or something that is not a list. A camera is
  seen through the accessors \<open>_broadcastCamera\<close> calls on it. A \<open>tick\<close> holds what
  every collaborator call of one iteration returns, or the exception it raises
  (\<open>Inl\<close>): \<open>rate.sleep()\<close>, the four \<open>rospy.get_rostime()\<close> of the iteration, and the
  accessors of the simulator. \<open>stop_requested\<close> tells whether another thread has set
  \<open>_wrapper_termination\<close> by the time the loop tests it. Message constructors,
  \<open>publish\<close>, \<open>sendTransform\<close> and \<open>cv2_to_imgmsg\<close> are taken to return.
  What an accessor returns is a value of its own: \<open>_getJointStateMsg\<close> extends in
  place the list that \<open>getAnglesPosition\<close> returns, and that list is taken not to be
  shared with the simulator. \<open>camera.getFrame()\<close> is called twice in an iteration and
  answers the same both times.
\<close>

datatype laser_value = LaserList "real list" | NotAList

record camera =
  getFrame :: "frame option"
  getCameraLink_getName :: string
  getResolution :: "nat \<times> nat"
  getCameraIntrinsics :: "real list"
  getCameraId :: int

record tick =
  stop_requested :: bool
  rate_sleep :: "exn option"
  stamp_joint_state :: rostime
  stamp_scan :: rostime
  stamp_transform :: rostime
  stamp_odom :: rostime
  joint_dict :: "string list"
  getAnglesPosition :: "string list \<Rightarrow> exn + real list"
  laser_isActive :: "exn + bool"
  getRightLaserValue :: "exn + laser_value"
  getFrontLaserValue :: "exn + laser_value"
  getLeftLaserValue :: "exn + laser_value"
  getPosition :: "exn + real \<times> real \<times> real"
  getBaseVelocity :: "exn + (real \<times> real \<times> real) \<times> (real \<times> real \<times> real)"
  getActiveCamera :: "exn + camera option"

subsection \<open>Running a method: its trace and the exception that ended it\<close>

type_synonym run = "event list \<times> exn option"

definition returns :: "event list \<Rightarrow> run" where
  "returns es = (es, None)"

definition raises :: "exn \<Rightarrow> run" where
  "raises e = ([], Some e)"

definition then_run :: "run \<Rightarrow> run \<Rightarrow> run" where
  "then_run r1 r2 = (case snd r1 of Some e \<Rightarrow> r1 | None \<Rightarrow> (fst r1 @ fst r2, snd r2))"

text \<open>\<open>try: ... except AssertionError: pass\<close>\<close>

definition except_AssertionError :: "run \<Rightarrow> run" where
  "except_AssertionError r =
     (case snd r of Some AssertionError \<Rightarrow> (fst r, None) | _ \<Rightarrow> r)"

subsection \<open>The publishing methods\<close>

definition getJointStateMsg :: "tick \<Rightarrow> exn + joint_state" where
  "getJointStateMsg s =
     (let name = joint_dict s
      in case getAnglesPosition s name of
           Inl e \<Rightarrow> Inl e
         | Inr pos \<Rightarrow>
             Inr \<lparr>js_header = \<lparr>stamp = stamp_joint_state s, frame_id = ''''\<rparr>,
                  js_name = name @ [''WheelFL'', ''WheelFR'', ''WheelB''],
                  js_position = pos @ [0, 0, 0]\<rparr>)"

text \<open>\<open>scan.ranges\<close> starts empty; each laser extends it only when its value is a list.\<close>

definition scan_ranges :: "laser_value \<Rightarrow> laser_value \<Rightarrow> laser_value \<Rightarrow> real list" where
  "scan_ranges right_scan front_scan left_scan =
     (let r0 = [];
          r1 = (case right_scan of
                  LaserList xs \<Rightarrow> r0 @ rev xs @ replicate 8 (- 1) | NotAList \<Rightarrow> r0);
          r2 = (case front_scan of
                  LaserList xs \<Rightarrow> r1 @ rev xs @ replicate 8 (- 1) | NotAList \<Rightarrow> r1);
          r3 = (case left_scan of
                  LaserList xs \<Rightarrow> r2 @ rev xs | NotAList \<Rightarrow> r2)
      in r3)"

definition laser_scan_msg :: "tick \<Rightarrow> laser_value \<Rightarrow> laser_value \<Rightarrow> laser_value \<Rightarrow> laser_scan" where
  "laser_scan_msg s right_scan front_scan left_scan =
     \<lparr>scan_header = \<lparr>stamp = stamp_scan s, frame_id = ''base_footprint''\<rparr>,
      angle_min = - 2.0944,
      angle_max = 2.0944,
      angle_increment = (2 * 2.0944) / (15.0 + 15.0 + 15.0 + 8.0 + 8.0),
      range_min = 0.1,
      range_max = 3.0,
      ranges = scan_ranges right_scan front_scan left_scan\<rparr>"

definition updateLasers :: "launch_attrs \<Rightarrow> tick \<Rightarrow> run" where
  "updateLasers a s =
     (case laser_isActive s of
        Inl e \<Rightarrow> raises e
      | Inr active \<Rightarrow>
          if \<not> active then returns []
          else (case getRightLaserValue s of
                  Inl e \<Rightarrow> raises e
                | Inr right_scan \<Rightarrow>
                   (case getFrontLaserValue s of
                      Inl e \<Rightarrow> raises e
                    | Inr front_scan \<Rightarrow>
                       (case getLeftLaserValue s of
                          Inl e \<Rightarrow> raises e
                        | Inr left_scan \<Rightarrow>
                            returns [Publish (laser_pub a)
                              (LaserScan (laser_scan_msg s right_scan front_scan left_scan))]))))"

definition odom_trans_msg :: "pybullet \<Rightarrow> tick \<Rightarrow> real \<Rightarrow> real \<Rightarrow> real \<Rightarrow> transform_stamped" where
  "odom_trans_msg pb s x y theta =
     (case getQuaternionFromEuler pb (0, 0, theta) of
        (quat0, quat1, quat2, quat3) \<Rightarrow>
          \<lparr>tf_header = \<lparr>stamp = stamp_transform s, frame_id = ''odom''\<rparr>,
           child_frame_id = ''base_link'',
           translation = \<lparr>v3_x = x, v3_y = y, v3_z = 0\<rparr>,
           rotation = \<lparr>q_x = quat0, q_y = quat1, q_z = quat2, q_w = quat3\<rparr>\<rparr>)"

definition odom_msg :: "tick \<Rightarrow> transform_stamped \<Rightarrow> real \<Rightarrow> real \<Rightarrow> real \<Rightarrow> real \<Rightarrow> real \<Rightarrow> odometry" where
  "odom_msg s odom_trans x y vx vy wz =
     \<lparr>odom_header = \<lparr>stamp = stamp_odom s, frame_id = ''odom''\<rparr>,
      odom_child_frame_id = ''base_link'',
      pose_position = \<lparr>v3_x = x, v3_y = y, v3_z = 0.0\<rparr>,
      pose_orientation = rotation odom_trans,
      twist_linear_x = vx,
      twist_linear_y = vy,
      twist_angular_z = wz\<rparr>"

definition broadcastOdom :: "pybullet \<Rightarrow> launch_attrs \<Rightarrow> tick \<Rightarrow> run" where
  "broadcastOdom pb a s =
     (case getPosition s of
        Inl e \<Rightarrow> raises e
      | Inr (x, y, theta) \<Rightarrow>
         (let odom_trans = odom_trans_msg pb s x y theta
          in then_run (returns [SendTransform odom_trans])
               (case getBaseVelocity s of
                  Inl e \<Rightarrow> raises e
                | Inr ((vx, vy, vz), (wx, wy, wz)) \<Rightarrow>
                    returns [Publish (odom_pub a)
                      (Odometry (odom_msg s odom_trans x y vx vy wz))])))"

text \<open>\<open>list.insert(i, x)\<close> for an index that is not negative: past the end it appends.\<close>

definition list_insert :: "nat \<Rightarrow> 'a \<Rightarrow> 'a list \<Rightarrow> 'a list" where
  "list_insert i x xs = take i xs @ [x] @ drop i xs"

definition camera_info_msg :: "camera \<Rightarrow> camera_info" where
  "camera_info_msg cam =
     (let K = getCameraIntrinsics cam;
          P0 = K;
          P1 = list_insert 3 0.0 P0;
          P2 = list_insert 7 0.0 P1;
          P3 = P2 @ [0.0]
      in \<lparr>distortion_model = ''plumb_bob'',
          info_frame_id = getCameraLink_getName cam,
          width = fst (getResolution cam),
          height = snd (getResolution cam),
          info_D = [0.0, 0.0, 0.0, 0.0, 0.0],
          info_K = K,
          info_R = [1, 0, 0, 0, 1, 0, 0, 0, 1],
          info_P = P3\<rparr>)"

text \<open>The image message of a frame: \<open>cv2_to_imgmsg\<close>, then the frame id, then the
  encoding that the branch publishing it assigns.\<close>

definition camera_image_msg :: "camera \<Rightarrow> frame \<Rightarrow> string \<Rightarrow> image_msg" where
  "camera_image_msg cam fr enc =
     \<lparr>image_data = fr, image_frame_id = getCameraLink_getName cam, encoding = enc\<rparr>"

definition broadcastCamera_try :: "package_consts \<Rightarrow> launch_attrs \<Rightarrow> tick \<Rightarrow> run" where
  "broadcastCamera_try k a s =
     (case getActiveCamera s of
        Inl e \<Rightarrow> raises e
      | Inr None \<Rightarrow> raises AssertionError
      | Inr (Some cam) \<Rightarrow>
         (case getFrame cam of
            None \<Rightarrow> raises AssertionError
          | Some fr \<Rightarrow>
              if getCameraId cam = ID_CAMERA_TOP k then
                returns [Publish (front_cam_pub a) (ImageMsg (camera_image_msg cam fr ''bgr8'')),
                         Publish (front_info_pub a) (CameraInfo (camera_info_msg cam))]
              else if getCameraId cam = ID_CAMERA_BOTTOM k then
                returns [Publish (bottom_cam_pub a) (ImageMsg (camera_image_msg cam fr ''bgr8'')),
                         Publish (bottom_info_pub a) (CameraInfo (camera_info_msg cam))]
              else if getCameraId cam = ID_CAMERA_DEPTH k then
                returns [Publish (depth_cam_pub a) (ImageMsg (camera_image_msg cam fr ''16UC1'')),
                         Publish (depth_info_pub a) (CameraInfo (camera_info_msg cam))]
              else returns []))"

definition broadcastCamera :: "package_consts \<Rightarrow> launch_attrs \<Rightarrow> tick \<Rightarrow> run" where
  "broadcastCamera k a s = except_AssertionError (broadcastCamera_try k a s)"

subsection \<open>The main loop\<close>

text \<open>The body of the \<open>while\<close> of \<open>_spin\<close>: sleep, then the four publications.\<close>

definition rate_sleep_run :: "launch_attrs \<Rightarrow> tick \<Rightarrow> run" where
  "rate_sleep_run a s =
     (case rate_sleep s of Some e \<Rightarrow> raises e | None \<Rightarrow> returns [Sleep (frequency a)])"

definition publish_joint_states :: "launch_attrs \<Rightarrow> tick \<Rightarrow> run" where
  "publish_joint_states a s =
     (case getJointStateMsg s of
        Inl e \<Rightarrow> raises e
      | Inr m \<Rightarrow> returns [Publish (joint_states_pub a) (JointState m)])"

definition spin_iteration :: "package_consts \<Rightarrow> pybullet \<Rightarrow> launch_attrs \<Rightarrow> tick \<Rightarrow> run" where
  "spin_iteration k pb a s =
     then_run (rate_sleep_run a s)
    (then_run (publish_joint_states a s)
    (then_run (updateLasers a s)
    (then_run (broadcastOdom pb a s)
              (broadcastCamera k a s))))"

text \<open>
  The \<open>while not self._wrapper_termination\<close> loop, over the ticks the collaborators
  provide. \<open>Running\<close>: the ticks are used up and the loop has not ended. \<open>Exited\<close>: the
  test found the flag set. \<open>Raised e\<close>: an iteration raised \<open>e\<close>, which leaves the loop.
\<close>

datatype loop_end = Running | Exited | Raised exn

text \<open>The wrapper as the loop test sees it: the flag is set when another thread's
  \<open>stopWrapper\<close> has set it since the last test.\<close>

definition read_flag :: "tick \<Rightarrow> wrapper \<Rightarrow> wrapper" where
  "read_flag s w = (if stop_requested s then w\<lparr>wrapper_termination := True\<rparr> else w)"

fun spin_loop ::
  "package_consts \<Rightarrow> pybullet \<Rightarrow> launch_attrs \<Rightarrow> wrapper \<Rightarrow> tick list
     \<Rightarrow> wrapper \<times> event list \<times> loop_end" where
  "spin_loop k pb a w [] = (w, [], Running)"
| "spin_loop k pb a w (s # ss) =
     (let w1 = read_flag s w
      in if wrapper_termination w1 then (w1, [], Exited)
         else (case spin_iteration k pb a s of
                 (es, Some e) \<Rightarrow> (w1, es, Raised e)
               | (es, None) \<Rightarrow>
                  (case spin_loop k pb a w1 ss of
                     (w2, es2, r) \<Rightarrow> (w2, es @ es2, r))))"

text \<open>
  \<open>_spin\<close>. \<open>rospy.Rate(self.frequency)\<close> stands before the \<open>try\<close>: what it raises
  (\<open>rospy_Rate\<close> gives it) is propagated, and so is the missing attribute when
  \<open>launchWrapper\<close> has not run. Inside the \<open>try\<close>, \<open>except Exception\<close> prints and returns.
\<close>

datatype spin_end = StillRunning | Returned | Propagated exn | NoAttribute string

definition spin ::
  "package_consts \<Rightarrow> pybullet \<Rightarrow> (real \<Rightarrow> exn option) \<Rightarrow> wrapper \<Rightarrow> tick list
     \<Rightarrow> wrapper \<times> event list \<times> spin_end" where
  "spin k pb rospy_Rate w ss =
     (case launched w of
        None \<Rightarrow> (w, [], NoAttribute ''frequency'')
      | Some a \<Rightarrow>
         (case rospy_Rate (frequency a) of
            Some e \<Rightarrow> (w, [], Propagated e)
          | None \<Rightarrow>
             (case spin_loop k pb a w ss of
                (w1, es, Running) \<Rightarrow> (w1, es, StillRunning)
              | (w1, es, Exited) \<Rightarrow> (w1, es, Returned)
              | (w1, es, Raised e) \<Rightarrow>
                  if is_Exception e
                  then (w1, es @ [Print (''Stopping the ROS wrapper: '' @ str_exn e)], Returned)
                  else (w1, es, Propagated e))))"

subsection \<open>Construction, launch and stop\<close>

text \<open>\<open>MISSING_IMPORT\<close> is \<open>None\<close> or the message of the import error.\<close>

definition RosWrapper_init :: "string option \<Rightarrow> exn + wrapper \<times> event list" where
  "RosWrapper_init MISSING_IMPORT =
     (case MISSING_IMPORT of
        Some m \<Rightarrow> Inl (PybulletError m)
      | None \<Rightarrow>
          Inr (\<lparr>spin_thread = ThreadNone,
                wrapper_termination = False,
                front_info_msg = [],
                bottom_info_msg = [],
                depth_info_msg = [],
                roslauncher = None,
                launched = None\<rparr>,
               [AtexitRegister]))"

definition PepperRosWrapper_init :: "string option \<Rightarrow> exn + wrapper \<times> event list" where
  "PepperRosWrapper_init MISSING_IMPORT = RosWrapper_init MISSING_IMPORT"

text \<open>\<open>isAlive\<close> is what \<open>self.spin_thread.isAlive()\<close> answers when it is asked;
  \<open>join\<close> and \<open>roslauncher.stop\<close> are taken to return.\<close>

definition stopWrapper :: "bool \<Rightarrow> wrapper \<Rightarrow> wrapper \<times> run" where
  "stopWrapper isAlive w =
     (let w1 = w\<lparr>wrapper_termination := True\<rparr>;
          r1 = except_AssertionError
                 (case spin_thread w1 of
                    ThreadNone \<Rightarrow> raises AssertionError
                  | OtherObj \<Rightarrow> raises AssertionError
                  | ThreadObj \<Rightarrow> if isAlive then returns [Join] else raises AssertionError);
          r2 = (case roslauncher w1 of
                  None \<Rightarrow> returns []
                | Some l \<Rightarrow> returns [RoslauncherStop, Print ''stopping roslauncher''])
      in (w1, then_run r1 r2))"

text \<open>
  \<open>launchWrapper\<close>. \<open>robot_description\<close> is the outcome of finding the package
  directory, opening the URDF file and reading it: the text, or the exception raised.
  Every other call of the method (\<open>init_node\<close>, the publishers and subscribers,
  \<open>set_param\<close>, the launcher, the thread) is taken to return. \<open>launch_events\<close> are
  the calls made before the \<open>try\<close>.
\<close>

definition launch_events :: "launch_attrs \<Rightarrow> event list" where
  "launch_events a =
     [InitNode ''pybullet_pepper'',
      Advertise (front_cam_pub a) T_Image 10,
      Advertise (front_info_pub a) T_CameraInfo 10,
      Advertise (bottom_cam_pub a) T_Image 10,
      Advertise (bottom_info_pub a) T_CameraInfo 10,
      Advertise (depth_cam_pub a) T_Image 10,
      Advertise (depth_info_pub a) T_CameraInfo 10,
      Advertise (laser_pub a) T_LaserScan 10,
      Advertise (joint_states_pub a) T_JointState 10,
      Advertise (odom_pub a) T_Odometry 10,
      Subscribe ''/joint_angles'' T_JointAnglesWithSpeed JointAnglesCallback,
      Subscribe ''/cmd_vel'' T_Twist VelocityCallback,
      Subscribe ''/move_base_simple/goal'' T_PoseStampedWithSpeed MoveToCallback,
      Subscribe ''/move_base_simple/cancel'' T_Empty KillMoveCallback]"

definition launchWrapper ::
  "string option \<Rightarrow> exn + string \<Rightarrow> wrapper \<Rightarrow> sim_ref \<Rightarrow> string \<Rightarrow> real \<Rightarrow> wrapper \<times> run" where
  "launchWrapper MISSING_IMPORT robot_description w vp ns freq =
     (case MISSING_IMPORT of
        Some m \<Rightarrow> (w, raises (PybulletError m))
      | None \<Rightarrow>
         (let a = \<lparr>virtual_pepper = vp,
                   ros_namespace = ns,
                   frequency = freq,
                   front_cam_pub = ns @ ''/camera/front/image_raw'',
                   front_info_pub = ns @ ''/camera/front/camera_info'',
                   bottom_cam_pub = ns @ ''/camera/bottom/image_raw'',
                   bottom_info_pub = ns @ ''/camera/bottom/camera_info'',
                   depth_cam_pub = ns @ ''/camera/depth/image_raw'',
                   depth_info_pub = ns @ ''/camera/depth/camera_info'',
                   laser_pub = ns @ ''/laser'',
                   joint_states_pub = ''/joint_states'',
                   odom_pub = ''odom''\<rparr>;
              w1 = w\<lparr>launched := Some a\<rparr>;
              es1 = launch_events a
          in case robot_description of
               Inr description \<Rightarrow>
                 (w1\<lparr>roslauncher := Some ROSLaunch,
                     wrapper_termination := False,
                     spin_thread := ThreadObj\<rparr>,
                  returns (es1 @ [SetParam ''/robot_description'' description,
                                  RoslauncherStart,
                                  RoslauncherLaunch ''robot_state_publisher'' ''robot_state_publisher'',
                                  ThreadStart]))
             | Inl (IOError m) \<Rightarrow>
                 (w1, returns (es1 @ [Print (''Could not retrieve robot descrition: '' @ m)]))
             | Inl e \<Rightarrow> (w1, (es1, Some e))))"

text \<open>The topics a trace advertises and subscribes to, in order.\<close>

fun advertised :: "event list \<Rightarrow> string list" where
  "advertised [] = []"
| "advertised (Advertise t ty q # es) = t # advertised es"
| "advertised (e # es) = advertised es"

fun subscribed :: "event list \<Rightarrow> string list" where
  "subscribed [] = []"
| "subscribed (Subscribe t ty c # es) = t # subscribed es"
| "subscribed (e # es) = subscribed es"

text \<open>The events that send a message: \<open>publish\<close> and \<open>sendTransform\<close>.\<close>

fun is_publication :: "event \<Rightarrow> bool" where
  "is_publication (Publish t m) = True"
| "is_publication (SendTransform t) = True"
| "is_publication e = False"

subsection \<open>Delivery of a command message\<close>

text \<open>
  A command message as it arrives, of one of the four classes the wrapper subscribes
  with. A subscriber \<open>rospy.Subscriber(topic, data_class, callback)\<close> holds a bound
  method of the wrapper; \<open>call_callback\<close> is the call of that method on a message.
  A callback given a message of another class fails at the first field it reads (an
  \<open>AttributeError\<close>, whose text is not kept); \<open>_killMoveCallback\<close> reads no field.
\<close>

datatype command =
    JointAnglesWithSpeedMsg joint_angles_with_speed
  | TwistMsg twist
  | PoseStampedWithSpeedMsg pose_stamped_with_speed
  | EmptyMsg

fun data_class :: "command \<Rightarrow> msg_type" where
  "data_class (JointAnglesWithSpeedMsg m) = T_JointAnglesWithSpeed"
| "data_class (TwistMsg m) = T_Twist"
| "data_class (PoseStampedWithSpeedMsg m) = T_PoseStampedWithSpeed"
| "data_class EmptyMsg = T_Empty"

fun call_callback ::
  "package_consts \<Rightarrow> pybullet \<Rightarrow> launch_attrs \<Rightarrow> callback \<Rightarrow> command \<Rightarrow> exn + event list" where
  "call_callback k pb a JointAnglesCallback (JointAnglesWithSpeedMsg m) =
     Inr (jointAnglesCallback a m)"
| "call_callback k pb a VelocityCallback (TwistMsg m) = Inr (velocityCallback a m)"
| "call_callback k pb a MoveToCallback (PoseStampedWithSpeedMsg m) =
     Inr (moveToCallback k pb a m)"
| "call_callback k pb a KillMoveCallback m = Inr (killMoveCallback a ())"
| "call_callback k pb a c m = Inl (OtherException ''AttributeError'')"

text \<open>
  What the middleware does with a message received on a topic: every subscriber that
  the trace registered for that topic, with the class of the message, has its callback
  called on the message. The result lists the outcome of each call, in the order of the
  subscriptions: the calls the callback made on the simulator, or the exception it
  raised.
\<close>

fun deliver ::
  "package_consts \<Rightarrow> pybullet \<Rightarrow> launch_attrs \<Rightarrow> event list \<Rightarrow> string \<Rightarrow> command
     \<Rightarrow> (exn + event list) list" where
  "deliver k pb a [] topic m = []"
| "deliver k pb a (Subscribe t ty c # es) topic m =
     (if t = topic \<and> ty = data_class m then [call_callback k pb a c m] else [])
     @ deliver k pb a es topic m"
| "deliver k pb a (e # es) topic m = deliver k pb a es topic m"

subsection \<open>Concrete inputs\<close>

text \<open>
  The constants as the package sets them, a \<open>pybullet\<close> whose conversions are constant,
  the attributes and the state that \<open>launchWrapper\<close> leaves for the namespace
  \<open>/pepper\<close>, a camera with a frame, and a tick in which every collaborator returns.
\<close>

definition example_consts :: package_consts where
  "example_consts =
     \<lparr>MAX_LINEAR_VELOCITY = 0.55, MIN_LINEAR_VELOCITY = 0.1,
      ID_CAMERA_TOP = 0, ID_CAMERA_BOTTOM = 1, ID_CAMERA_DEPTH = 2\<rparr>"

definition example_pybullet :: pybullet where
  "example_pybullet =
     \<lparr>getQuaternionFromEuler = (\<lambda>e. (0, 0, 0, 1)),
      getEulerFromQuaternion = (\<lambda>q. (0, 0, 0))\<rparr>"

definition example_attrs :: launch_attrs where
  "example_attrs =
     \<lparr>virtual_pepper = 1,
      ros_namespace = ''/pepper'',
      frequency = 200,
      front_cam_pub = ''/pepper/camera/front/image_raw'',
      front_info_pub = ''/pepper/camera/front/camera_info'',
      bottom_cam_pub = ''/pepper/camera/bottom/image_raw'',
      bottom_info_pub = ''/pepper/camera/bottom/camera_info'',
      depth_cam_pub = ''/pepper/camera/depth/image_raw'',
      depth_info_pub = ''/pepper/camera/depth/camera_info'',
      laser_pub = ''/pepper/laser'',
      joint_states_pub = ''/joint_states'',
      odom_pub = ''odom''\<rparr>"

definition example_wrapper :: wrapper where
  "example_wrapper =
     \<lparr>spin_thread = ThreadObj,
      wrapper_termination = False,
      front_info_msg = [],
      bottom_info_msg = [],
      depth_info_msg = [],
      roslauncher = Some ROSLaunch,
      launched = Some example_attrs\<rparr>"

definition example_camera :: "int \<Rightarrow> camera" where
  "example_camera i =
     \<lparr>getFrame = Some [0, 255],
      getCameraLink_getName = ''CameraTop_optical_frame'',
      getResolution = (320, 240),
      getCameraIntrinsics = [1, 0, 2, 0, 1, 3, 0, 0, 1],
      getCameraId = i\<rparr>"

definition example_tick :: "bool \<Rightarrow> camera option \<Rightarrow> tick" where
  "example_tick active cam =
     \<lparr>stop_requested = False,
      rate_sleep = None,
      stamp_joint_state = 1,
      stamp_scan = 2,
      stamp_transform = 3,
      stamp_odom = 4,
      joint_dict = [''HeadYaw'', ''HeadPitch''],
      getAnglesPosition = (\<lambda>names. Inr (map (\<lambda>n. 0.5) names)),
      laser_isActive = Inr active,
      getRightLaserValue = Inr (LaserList [1, 2]),
      getFrontLaserValue = Inr (LaserList [3]),
      getLeftLaserValue = Inr (LaserList [4, 5]),
      getPosition = Inr (1, 2, 0),
      getBaseVelocity = Inr ((0.1, 0.2, 0), (0, 0, 0.3)),
      getActiveCamera = Inr cam\<rparr>"

text \<open>A \<open>rospy.Rate\<close> whose construction succeeds for every frequency.\<close>

definition example_Rate :: "real \<Rightarrow> exn option" where
  "example_Rate hz = None"

section \<open>Properties\<close>

subsection \<open>Sequencing\<close>

lemma then_run_returns: "then_run (returns es) r = (es @ fst r, snd r)"
  by (simp add: then_run_def returns_def)

lemma then_run_raises: "then_run (raises e) r = raises e"
  by (simp add: then_run_def raises_def)

lemma snd_then_run_None: "(snd (then_run r1 r2) = None) = (snd r1 = None \<and> snd r2 = None)"
  by (auto simp: then_run_def split: option.splits)

lemma fst_then_run: "snd r1 = None \<Longrightarrow> fst (then_run r1 r2) = fst r1 @ fst r2"
  by (simp add: then_run_def)

lemma set_then_run: "set (fst (then_run r1 r2)) \<subseteq> set (fst r1) \<union> set (fst r2)"
  by (auto simp: then_run_def split: option.splits)


lemma except_AssertionError_returns: "except_AssertionError (returns es) = returns es"
  by (simp add: except_AssertionError_def returns_def)

lemma except_AssertionError_raises:
  "except_AssertionError (raises e) = (if e = AssertionError then returns [] else raises e)"
  by (cases e) (simp_all add: except_AssertionError_def returns_def raises_def)

lemma snd_except_AssertionError: "snd (except_AssertionError r) \<noteq> Some AssertionError"
  by (auto simp: except_AssertionError_def split: option.splits exn.splits)

lemma fst_except_AssertionError: "fst (except_AssertionError r) = fst r"
  by (auto simp: except_AssertionError_def split: option.splits exn.splits)

subsection \<open>The loop, step by step\<close>

lemma spin_loop_exit:
  "wrapper_termination (read_flag s w) \<Longrightarrow>
   spin_loop k pb a w (s # ss) = (read_flag s w, [], Exited)"
  by (simp add: Let_def)

lemma spin_loop_raise:
  "\<not> wrapper_termination (read_flag s w) \<Longrightarrow> spin_iteration k pb a s = (es, Some e) \<Longrightarrow>
   spin_loop k pb a w (s # ss) = (read_flag s w, es, Raised e)"
  by (simp add: Let_def)

lemma spin_loop_step:
  "\<not> wrapper_termination (read_flag s w) \<Longrightarrow> spin_iteration k pb a s = (es, None) \<Longrightarrow>
   spin_loop k pb a w (s # ss) =
     (case spin_loop k pb a (read_flag s w) ss of (w2, es2, r) \<Rightarrow> (w2, es @ es2, r))"
  by (simp add: Let_def)


lemma read_flag_quiet: "\<not> stop_requested s \<Longrightarrow> read_flag s w = w"
  by (simp add: read_flag_def)



lemma spin_loop_quiet_prefix:
  "\<not> wrapper_termination w \<Longrightarrow>
   \<forall>s\<in>set p. \<not> stop_requested s \<and> snd (spin_iteration k pb a s) = None \<Longrightarrow>
   spin_loop k pb a w (p @ rest) =
     (case spin_loop k pb a w rest of
        (w2, es2, r) \<Rightarrow> (w2, concat (map (\<lambda>s. fst (spin_iteration k pb a s)) p) @ es2, r))"
proof (induction p)
  case Nil
  then show ?case by (simp split: prod.splits)
next
  case (Cons s p)
  then have q: "\<not> stop_requested s" and it: "spin_iteration k pb a s = (fst (spin_iteration k pb a s), None)"
    by (auto simp: prod_eq_iff)
  from q Cons.prems(1) have nt: "\<not> wrapper_termination (read_flag s w)"
    by (simp add: read_flag_quiet)
  from Cons have IH: "spin_loop k pb a w (p @ rest) =
     (case spin_loop k pb a w rest of
        (w2, es2, r) \<Rightarrow> (w2, concat (map (\<lambda>s. fst (spin_iteration k pb a s)) p) @ es2, r))"
    by simp
  show ?case
    using spin_loop_step [OF nt it, of "p @ rest"] q IH
    by (simp add: read_flag_quiet split: prod.splits)
qed


subsection \<open>The parts of an iteration\<close>


lemma rate_sleep_run_ok: "snd (rate_sleep_run a s) = None \<Longrightarrow> rate_sleep_run a s = ([Sleep (frequency a)], None)"
  by (auto simp: rate_sleep_run_def returns_def raises_def split: option.splits)

lemma publish_joint_states_events:
  "e \<in> set (fst (publish_joint_states a s)) \<Longrightarrow>
   \<exists>ps. getAnglesPosition s (joint_dict s) = Inr ps \<and>
     e = Publish (joint_states_pub a) (JointState
           \<lparr>js_header = \<lparr>stamp = stamp_joint_state s, frame_id = ''''\<rparr>,
            js_name = joint_dict s @ [''WheelFL'', ''WheelFR'', ''WheelB''],
            js_position = ps @ [0, 0, 0]\<rparr>)"
  by (auto simp: publish_joint_states_def getJointStateMsg_def Let_def returns_def raises_def
      split: sum.splits)

lemma updateLasers_events:
  "e \<in> set (fst (updateLasers a s)) \<Longrightarrow>
   \<exists>r f l. laser_isActive s = Inr True \<and> getRightLaserValue s = Inr r \<and>
     getFrontLaserValue s = Inr f \<and> getLeftLaserValue s = Inr l \<and>
     e = Publish (laser_pub a) (LaserScan (laser_scan_msg s r f l))"
  by (auto simp: updateLasers_def returns_def raises_def split: sum.splits if_splits)

lemma broadcastOdom_events:
  "e \<in> set (fst (broadcastOdom pb a s)) \<Longrightarrow>
   \<exists>x y theta. getPosition s = Inr (x, y, theta) \<and>
     (e = SendTransform (odom_trans_msg pb s x y theta) \<or>
      (\<exists>vx vy vz wx wy wz. getBaseVelocity s = Inr ((vx, vy, vz), (wx, wy, wz)) \<and>
         e = Publish (odom_pub a)
               (Odometry (odom_msg s (odom_trans_msg pb s x y theta) x y vx vy wz))))"
  by (auto simp: broadcastOdom_def Let_def then_run_def returns_def raises_def
      split: sum.splits prod.splits option.splits)

lemma broadcastCamera_events:
  "e \<in> set (fst (broadcastCamera k a s)) \<Longrightarrow>
   \<exists>cam fr t enc. getActiveCamera s = Inr (Some cam) \<and> getFrame cam = Some fr \<and>
     (e = Publish t (ImageMsg (camera_image_msg cam fr enc)) \<or>
      e = Publish t (CameraInfo (camera_info_msg cam)))"
  by (auto simp: broadcastCamera_def broadcastCamera_try_def fst_except_AssertionError
      returns_def raises_def split: sum.splits option.splits if_splits)


lemma spin_iteration_ok:
  "snd (spin_iteration k pb a s) = None \<Longrightarrow>
   fst (spin_iteration k pb a s) =
     Sleep (frequency a) # (fst (publish_joint_states a s) @ fst (updateLasers a s)
       @ fst (broadcastOdom pb a s) @ fst (broadcastCamera k a s))"
  by (simp add: spin_iteration_def snd_then_run_None fst_then_run rate_sleep_run_ok)

lemma replicate_8: "replicate 8 x = [x, x, x, x, x, x, x, x]"
  by (simp add: eval_nat_numeral)

lemma spin_loop_running_iff:
  "\<not> wrapper_termination w \<Longrightarrow>
   (snd (snd (spin_loop k pb a w ss)) = Running) =
   (\<forall>s\<in>set ss. \<not> stop_requested s \<and> snd (spin_iteration k pb a s) = None)"
proof (induction ss arbitrary: w)
  case Nil
  then show ?case by simp
next
  case (Cons s ss)
  show ?case
  proof (cases "stop_requested s")
    case True
    then have "wrapper_termination (read_flag s w)" by (simp add: read_flag_def)
    with True show ?thesis by (simp add: spin_loop_exit)
  next
    case False
    with Cons.prems have nt: "\<not> wrapper_termination (read_flag s w)"
      by (simp add: read_flag_quiet)
    obtain es x where it: "spin_iteration k pb a s = (es, x)"
      by (cases "spin_iteration k pb a s")
    show ?thesis
    proof (cases x)
      case (Some e)
      with nt it show ?thesis by (simp add: spin_loop_raise)
    next
      case None
      obtain w2 es2 r where rec: "spin_loop k pb a w ss = (w2, es2, r)"
        by (cases "spin_loop k pb a w ss")
      with nt it None False have "snd (snd (spin_loop k pb a w (s # ss))) = r"
        by (simp add: spin_loop_step read_flag_quiet)
      with rec it None False Cons.IH [OF Cons.prems] show ?thesis by simp
    qed
  qed
qed

lemma spin_loop_stop_requested:
  "stop_requested s \<Longrightarrow>
   spin_loop k pb a w (s # ss) = (w\<lparr>wrapper_termination := True\<rparr>, [], Exited)"
  by (simp add: read_flag_def Let_def)

lemma spin_loop_raised:
  "\<not> wrapper_termination w \<Longrightarrow> \<not> stop_requested s \<Longrightarrow>
   spin_iteration k pb a s = (es, Some e) \<Longrightarrow>
   spin_loop k pb a w (s # ss) = (w, es, Raised e)"
  by (simp add: read_flag_def Let_def)

lemma iteration_parts_publish:
  "e \<in> set (fst (publish_joint_states a s)) \<union> set (fst (updateLasers a s))
       \<union> set (fst (broadcastOdom pb a s)) \<union> set (fst (broadcastCamera k a s)) \<Longrightarrow>
   is_publication e"
  using publish_joint_states_events [of e a s] updateLasers_events [of e a s]
    broadcastOdom_events [of e pb a s] broadcastCamera_events [of e k a s]
  by auto

lemma spin_iteration_sleep_then_publish:
  "snd (spin_iteration k pb a s) = None \<Longrightarrow>
   \<exists>pubs. fst (spin_iteration k pb a s) = Sleep (frequency a) # pubs
     \<and> (\<forall>e\<in>set pubs. is_publication e)"
  using spin_iteration_ok [of k pb a s] iteration_parts_publish [of _ a s pb k]
  by auto



subsection \<open>The claims\<close>

text \<open>
  C1. Every command message received on a subscribed topic is forwarded into the
  simulator's control API by exactly one call. With the subscribers that
  \<open>launchWrapper\<close> registers (whatever happens to the robot description afterwards)
  and the attributes it leaves in the wrapper, a Twist received on \<open>/cmd_vel\<close> has
  one callback called, which makes the one call \<open>move(linear.x, linear.y, angular.z)\<close>
  on the simulator given to \<open>launchWrapper\<close>; a JointAnglesWithSpeed on
  \<open>/joint_angles\<close> the one call \<open>setAngles(joint_names, list(joint_angles), velocity)\<close>;
  a PoseStampedWithSpeed on \<open>/move_base_simple/goal\<close> the one asynchronous call
  \<open>moveTo(x, y, theta, frame, speed)\<close> whose speed is
  \<open>speed_percentage * MAX_LINEAR_VELOCITY + MIN_LINEAR_VELOCITY\<close>; an Empty on
  \<open>/move_base_simple/cancel\<close> the one call \<open>moveTo(0, 0, 0, _async=True)\<close>. Each
  callback by itself makes that one call on \<open>self.virtual_pepper\<close>.
\<close>

theorem callbacks_forward_one_call:
  "(\<exists>a. launched (fst (launchWrapper None rd w vp ns freq)) = Some a
      \<and> virtual_pepper a = vp
      \<and> deliver k pb a (fst (snd (launchWrapper None rd w vp ns freq)))
           ''/cmd_vel'' (TwistMsg tw) =
          [Inr [SimCall vp
             (Move (v3_x (twist_linear tw)) (v3_y (twist_linear tw)) (v3_z (twist_angular tw)))]]
      \<and> deliver k pb a (fst (snd (launchWrapper None rd w vp ns freq)))
           ''/joint_angles'' (JointAnglesWithSpeedMsg ja) =
          [Inr [SimCall vp
             (SetAngles (joint_names ja) (joint_angles ja)
                (if speeds ja = [] then VelocityScalar (speed ja) else VelocityList (speeds ja)))]]
      \<and> deliver k pb a (fst (snd (launchWrapper None rd w vp ns freq)))
           ''/move_base_simple/goal'' (PoseStampedWithSpeedMsg ps) =
          [Inr [SimCall vp
             (MoveTo (v3_x (position (pose_stamped_pose ps)))
                (v3_y (position (pose_stamped_pose ps)))
                (snd (snd (getEulerFromQuaternion pb
                   (q_x (orientation (pose_stamped_pose ps)),
                    q_y (orientation (pose_stamped_pose ps)),
                    q_z (orientation (pose_stamped_pose ps)),
                    q_w (orientation (pose_stamped_pose ps))))))
                (Some (referenceFrame ps))
                (Some (speed_percentage ps * MAX_LINEAR_VELOCITY k + MIN_LINEAR_VELOCITY k))
                True)]]
      \<and> deliver k pb a (fst (snd (launchWrapper None rd w vp ns freq)))
           ''/move_base_simple/cancel'' EmptyMsg =
          [Inr [SimCall vp (MoveTo 0 0 0 None None True)]])
   \<and> velocityCallback a tw =
     [SimCall (virtual_pepper a)
        (Move (v3_x (twist_linear tw)) (v3_y (twist_linear tw)) (v3_z (twist_angular tw)))]
   \<and> (\<exists>velocity. jointAnglesCallback a ja =
        [SimCall (virtual_pepper a) (SetAngles (joint_names ja) (joint_angles ja) velocity)])
   \<and> (\<exists>x y theta. moveToCallback k pb a ps =
        [SimCall (virtual_pepper a)
           (MoveTo x y theta (Some (referenceFrame ps))
              (Some (speed_percentage ps * MAX_LINEAR_VELOCITY k + MIN_LINEAR_VELOCITY k))
              True)]
        \<and> x = v3_x (position (pose_stamped_pose ps))
        \<and> y = v3_y (position (pose_stamped_pose ps))
        \<and> theta = snd (snd (getEulerFromQuaternion pb
             (q_x (orientation (pose_stamped_pose ps)), q_y (orientation (pose_stamped_pose ps)),
              q_z (orientation (pose_stamped_pose ps)), q_w (orientation (pose_stamped_pose ps))))))
   \<and> killMoveCallback a u = [SimCall (virtual_pepper a) (MoveTo 0 0 0 None None True)]"
proof (cases rd)
  case (Inl e)
  then show ?thesis
    by (cases e)
       (simp_all add: launchWrapper_def launch_events_def Let_def returns_def
          velocityCallback_def jointAnglesCallback_def moveToCallback_def killMoveCallback_def)
next
  case (Inr d)
  then show ?thesis
    by (simp add: launchWrapper_def launch_events_def Let_def returns_def
        velocityCallback_def jointAnglesCallback_def moveToCallback_def killMoveCallback_def)
qed

text \<open>
  C9. In the joint-angles callback the velocity passed to \<open>setAngles\<close> is the list of
  \<open>msg.speeds\<close> when that list is non-empty and the scalar \<open>msg.speed\<close> otherwise;
  exactly one of the two forms is forwarded.
\<close>

theorem jointAngles_velocity_choice:
  "jointAnglesCallback a m =
     [SimCall (virtual_pepper a)
        (SetAngles (joint_names m) (joint_angles m)
           (if speeds m = [] then VelocityScalar (speed m) else VelocityList (speeds m)))]"
  by (simp add: jointAnglesCallback_def Let_def)

text \<open>
  C10. Provided \<open>getAnglesPosition\<close> returns one position per requested joint, the
  JointState message of \<open>_getJointStateMsg\<close> has as many names as positions: its names
  are the keys of \<open>joint_dict\<close> followed by \<open>WheelFL\<close>, \<open>WheelFR\<close>, \<open>WheelB\<close>, its
  positions are the joints' positions followed by three zeros.
\<close>

theorem jointStateMsg_names_positions:
  assumes "getAnglesPosition s (joint_dict s) = Inr ps"
    and "length ps = length (joint_dict s)"
  shows "\<exists>m. getJointStateMsg s = Inr m
           \<and> js_name m = joint_dict s @ [''WheelFL'', ''WheelFR'', ''WheelB'']
           \<and> js_position m = ps @ [0, 0, 0]
           \<and> length (js_name m) = length (js_position m)"
  using assms by (simp add: getJointStateMsg_def Let_def)

theorem jointStateMsg_names_positions_witness:
  "getAnglesPosition (example_tick False None) (joint_dict (example_tick False None)) = Inr [0.5, 0.5]
   \<and> length [0.5 :: real, 0.5] = length (joint_dict (example_tick False None))
   \<and> (\<exists>m. getJointStateMsg (example_tick False None) = Inr m
           \<and> js_name m = [''HeadYaw'', ''HeadPitch'', ''WheelFL'', ''WheelFR'', ''WheelB'']
           \<and> js_position m = [0.5, 0.5, 0, 0, 0]
           \<and> length (js_name m) = length (js_position m))"
  using jointStateMsg_names_positions [of "example_tick False None" "[0.5, 0.5]"]
  by (simp add: example_tick_def)

text \<open>
  C5. \<open>stopWrapper\<close> always sets \<open>_wrapper_termination\<close>, and changes nothing else of
  the wrapper; it joins the spin thread exactly when the thread exists, is a Thread and
  is alive, and skips the join without an error otherwise; it then stops the roslauncher
  (and prints) exactly when one was created. No exception leaves it.
\<close>

theorem stopWrapper_flag_join_stop:
  "stopWrapper isAlive w =
     (w\<lparr>wrapper_termination := True\<rparr>,
      (if spin_thread w = ThreadObj \<and> isAlive then [Join] else [])
      @ (if roslauncher w = None then [] else [RoslauncherStop, Print ''stopping roslauncher'']),
      None)"
  by (cases "spin_thread w"; cases "roslauncher w")
     (simp_all add: stopWrapper_def Let_def except_AssertionError_raises
        except_AssertionError_returns then_run_returns, simp_all add: returns_def)

text \<open>
  C6. Once the import check has passed, \<open>launchWrapper\<close> advertises and subscribes to
  fixed topic names, whatever happens to the robot description afterwards: the six
  camera topics and the laser topic are the namespace followed by a fixed suffix;
  \<open>/joint_states\<close>, \<open>odom\<close> and the four subscribed topics do not depend on the
  namespace. Each publisher attribute holds the publisher of the topic of its name.
\<close>

theorem launchWrapper_topics:
  "advertised (fst (snd (launchWrapper None rd w vp ns freq))) =
     [ns @ ''/camera/front/image_raw'', ns @ ''/camera/front/camera_info'',
      ns @ ''/camera/bottom/image_raw'', ns @ ''/camera/bottom/camera_info'',
      ns @ ''/camera/depth/image_raw'', ns @ ''/camera/depth/camera_info'',
      ns @ ''/laser'', ''/joint_states'', ''odom'']
   \<and> subscribed (fst (snd (launchWrapper None rd w vp ns freq))) =
     [''/joint_angles'', ''/cmd_vel'', ''/move_base_simple/goal'', ''/move_base_simple/cancel'']
   \<and> (\<exists>a. launched (fst (launchWrapper None rd w vp ns freq)) = Some a
        \<and> front_cam_pub a = ns @ ''/camera/front/image_raw''
        \<and> front_info_pub a = ns @ ''/camera/front/camera_info''
        \<and> bottom_cam_pub a = ns @ ''/camera/bottom/image_raw''
        \<and> bottom_info_pub a = ns @ ''/camera/bottom/camera_info''
        \<and> depth_cam_pub a = ns @ ''/camera/depth/image_raw''
        \<and> depth_info_pub a = ns @ ''/camera/depth/camera_info''
        \<and> laser_pub a = ns @ ''/laser''
        \<and> joint_states_pub a = ''/joint_states''
        \<and> odom_pub a = ''odom'')"
proof (cases rd)
  case (Inl e)
  then show ?thesis
    by (cases e) (simp_all add: launchWrapper_def launch_events_def Let_def returns_def)
next
  case (Inr d)
  then show ?thesis
    by (simp add: launchWrapper_def launch_events_def Let_def returns_def)
qed

text \<open>
  C8. When the import of the ROS stack failed (\<open>MISSING_IMPORT\<close> holds the message),
  the constructors and \<open>launchWrapper\<close> raise \<open>pybullet.error\<close> with that message: the
  constructors build no instance, and \<open>launchWrapper\<close> leaves the wrapper as it was and
  makes no call before it raises.
\<close>

theorem missing_import_raises:
  "RosWrapper_init (Some m) = Inl (PybulletError m)
   \<and> PepperRosWrapper_init (Some m) = Inl (PybulletError m)
   \<and> launchWrapper (Some m) rd w vp ns freq = (w, [], Some (PybulletError m))"
  by (simp add: RosWrapper_init_def PepperRosWrapper_init_def launchWrapper_def raises_def)

text \<open>
  C2 (as the code has it). In an iteration of the main loop in which no collaborator
  call raises, the wrapper sleeps and then publishes the simulated sensor state, in this
  order: the JointState built from the joints' positions; when the laser manager is
  active, the LaserScan built from the three lasers' ranges; the odom to base_link
  transform and the Odometry built from the base position, its heading and the base
  velocity; and, when an active camera with a frame exists, the frame as an Image with
  its CameraInfo, on the topics of that camera. The active camera is one of Pepper's
  three: its identifier is \<open>ID_CAMERA_TOP\<close>, \<open>ID_CAMERA_BOTTOM\<close> or
  \<open>ID_CAMERA_DEPTH\<close>. Every field the wrapper assigns is given: stamps, frame ids,
  the scan's geometry and ranges, the yaw quaternion of \<open>getQuaternionFromEuler\<close> in
  the transform and in the pose, the image's encoding, and the camera's intrinsics in
  \<open>K\<close> and, with a zero column added, in \<open>P\<close>.
\<close>

theorem iteration_publishes_sensor_state:
  assumes "rate_sleep s = None"
    and "getAnglesPosition s (joint_dict s) = Inr ps"
    and "laser_isActive s = Inr active"
    and "active \<Longrightarrow> getRightLaserValue s = Inr right_scan
           \<and> getFrontLaserValue s = Inr front_scan \<and> getLeftLaserValue s = Inr left_scan"
    and "getPosition s = Inr (x, y, theta)"
    and "getQuaternionFromEuler pb (0, 0, theta) = (qx, qy, qz, qw)"
    and "getBaseVelocity s = Inr ((vx, vy, vz), (wx, wy, wz))"
    and "getActiveCamera s = Inr cam"
    and "\<forall>c. cam = Some c \<longrightarrow>
           getCameraId c \<in> {ID_CAMERA_TOP k, ID_CAMERA_BOTTOM k, ID_CAMERA_DEPTH k}"
  shows "spin_iteration k pb a s =
     ([Sleep (frequency a),
       Publish (joint_states_pub a) (JointState
         \<lparr>js_header = \<lparr>stamp = stamp_joint_state s, frame_id = ''''\<rparr>,
          js_name = joint_dict s @ [''WheelFL'', ''WheelFR'', ''WheelB''],
          js_position = ps @ [0, 0, 0]\<rparr>)]
      @ (if active
         then [Publish (laser_pub a) (LaserScan
                 \<lparr>scan_header = \<lparr>stamp = stamp_scan s, frame_id = ''base_footprint''\<rparr>,
                  angle_min = - 2.0944,
                  angle_max = 2.0944,
                  angle_increment = (2 * 2.0944) / 61,
                  range_min = 0.1,
                  range_max = 3,
                  ranges = scan_ranges right_scan front_scan left_scan\<rparr>)]
         else [])
      @ [SendTransform
           \<lparr>tf_header = \<lparr>stamp = stamp_transform s, frame_id = ''odom''\<rparr>,
            child_frame_id = ''base_link'',
            translation = \<lparr>v3_x = x, v3_y = y, v3_z = 0\<rparr>,
            rotation = \<lparr>q_x = qx, q_y = qy, q_z = qz, q_w = qw\<rparr>\<rparr>,
         Publish (odom_pub a) (Odometry
           \<lparr>odom_header = \<lparr>stamp = stamp_odom s, frame_id = ''odom''\<rparr>,
            odom_child_frame_id = ''base_link'',
            pose_position = \<lparr>v3_x = x, v3_y = y, v3_z = 0\<rparr>,
            pose_orientation = \<lparr>q_x = qx, q_y = qy, q_z = qz, q_w = qw\<rparr>,
            twist_linear_x = vx,
            twist_linear_y = vy,
            twist_angular_z = wz\<rparr>)]
      @ (case cam of
           None \<Rightarrow> []
         | Some c \<Rightarrow>
            (case getFrame c of
               None \<Rightarrow> []
             | Some fr \<Rightarrow>
                 [Publish
                    (if getCameraId c = ID_CAMERA_TOP k then front_cam_pub a
                     else if getCameraId c = ID_CAMERA_BOTTOM k then bottom_cam_pub a
                     else depth_cam_pub a)
                    (ImageMsg
                      \<lparr>image_data = fr,
                       image_frame_id = getCameraLink_getName c,
                       encoding =
                         (if getCameraId c = ID_CAMERA_TOP k
                             \<or> getCameraId c = ID_CAMERA_BOTTOM k
                          then ''bgr8'' else ''16UC1'')\<rparr>),
                  Publish
                    (if getCameraId c = ID_CAMERA_TOP k then front_info_pub a
                     else if getCameraId c = ID_CAMERA_BOTTOM k then bottom_info_pub a
                     else depth_info_pub a)
                    (CameraInfo
                      \<lparr>distortion_model = ''plumb_bob'',
                       info_frame_id = getCameraLink_getName c,
                       width = fst (getResolution c),
                       height = snd (getResolution c),
                       info_D = [0, 0, 0, 0, 0],
                       info_K = getCameraIntrinsics c,
                       info_R = [1, 0, 0, 0, 1, 0, 0, 0, 1],
                       info_P = list_insert 7 0 (list_insert 3 0 (getCameraIntrinsics c))
                                  @ [0]\<rparr>)])),
      None)
   \<and> scan_ranges (LaserList rs) (LaserList fs) (LaserList ls)
       = rev rs @ replicate 8 (- 1) @ rev fs @ replicate 8 (- 1) @ rev ls
   \<and> list_insert 7 0 (list_insert 3 0 [k0, k1, k2, k3, k4, k5, k6, k7, k8 :: real]) @ [0]
       = [k0, k1, k2, 0, k3, k4, k5, 0, k6, k7, k8, 0]"
proof -
  have sleep: "rate_sleep_run a s = returns [Sleep (frequency a)]"
    using assms(1) by (simp add: rate_sleep_run_def)
  have joints: "publish_joint_states a s =
      returns [Publish (joint_states_pub a) (JointState
         \<lparr>js_header = \<lparr>stamp = stamp_joint_state s, frame_id = ''''\<rparr>,
          js_name = joint_dict s @ [''WheelFL'', ''WheelFR'', ''WheelB''],
          js_position = ps @ [0, 0, 0]\<rparr>)]"
    using assms(2) by (simp add: publish_joint_states_def getJointStateMsg_def Let_def)
  have lasers: "updateLasers a s =
      returns (if active
         then [Publish (laser_pub a) (LaserScan
                 \<lparr>scan_header = \<lparr>stamp = stamp_scan s, frame_id = ''base_footprint''\<rparr>,
                  angle_min = - 2.0944,
                  angle_max = 2.0944,
                  angle_increment = (2 * 2.0944) / 61,
                  range_min = 0.1,
                  range_max = 3,
                  ranges = scan_ranges right_scan front_scan left_scan\<rparr>)]
         else [])"
    using assms(3,4) by (simp add: updateLasers_def laser_scan_msg_def)
  have odom: "broadcastOdom pb a s =
      returns [SendTransform
           \<lparr>tf_header = \<lparr>stamp = stamp_transform s, frame_id = ''odom''\<rparr>,
            child_frame_id = ''base_link'',
            translation = \<lparr>v3_x = x, v3_y = y, v3_z = 0\<rparr>,
            rotation = \<lparr>q_x = qx, q_y = qy, q_z = qz, q_w = qw\<rparr>\<rparr>,
         Publish (odom_pub a) (Odometry
           \<lparr>odom_header = \<lparr>stamp = stamp_odom s, frame_id = ''odom''\<rparr>,
            odom_child_frame_id = ''base_link'',
            pose_position = \<lparr>v3_x = x, v3_y = y, v3_z = 0\<rparr>,
            pose_orientation = \<lparr>q_x = qx, q_y = qy, q_z = qz, q_w = qw\<rparr>,
            twist_linear_x = vx,
            twist_linear_y = vy,
            twist_angular_z = wz\<rparr>)]"
    using assms(5,6,7)
    by (simp add: broadcastOdom_def Let_def then_run_returns odom_trans_msg_def odom_msg_def)
       (simp add: returns_def)
  have cam: "broadcastCamera k a s =
      returns (case cam of
           None \<Rightarrow> []
         | Some c \<Rightarrow>
            (case getFrame c of
               None \<Rightarrow> []
             | Some fr \<Rightarrow>
                 [Publish
                    (if getCameraId c = ID_CAMERA_TOP k then front_cam_pub a
                     else if getCameraId c = ID_CAMERA_BOTTOM k then bottom_cam_pub a
                     else depth_cam_pub a)
                    (ImageMsg
                      \<lparr>image_data = fr,
                       image_frame_id = getCameraLink_getName c,
                       encoding =
                         (if getCameraId c = ID_CAMERA_TOP k
                             \<or> getCameraId c = ID_CAMERA_BOTTOM k
                          then ''bgr8'' else ''16UC1'')\<rparr>),
                  Publish
                    (if getCameraId c = ID_CAMERA_TOP k then front_info_pub a
                     else if getCameraId c = ID_CAMERA_BOTTOM k then bottom_info_pub a
                     else depth_info_pub a)
                    (CameraInfo
                      \<lparr>distortion_model = ''plumb_bob'',
                       info_frame_id = getCameraLink_getName c,
                       width = fst (getResolution c),
                       height = snd (getResolution c),
                       info_D = [0, 0, 0, 0, 0],
                       info_K = getCameraIntrinsics c,
                       info_R = [1, 0, 0, 0, 1, 0, 0, 0, 1],
                       info_P = list_insert 7 0 (list_insert 3 0 (getCameraIntrinsics c))
                                  @ [0]\<rparr>)]))"
    using assms(8,9)
    by (auto simp: broadcastCamera_def broadcastCamera_try_def except_AssertionError_raises
        except_AssertionError_returns camera_image_msg_def camera_info_msg_def Let_def
        split: option.splits)
  have trace: "spin_iteration k pb a s =
     ([Sleep (frequency a),
       Publish (joint_states_pub a) (JointState
         \<lparr>js_header = \<lparr>stamp = stamp_joint_state s, frame_id = ''''\<rparr>,
          js_name = joint_dict s @ [''WheelFL'', ''WheelFR'', ''WheelB''],
          js_position = ps @ [0, 0, 0]\<rparr>)]
      @ (if active
         then [Publish (laser_pub a) (LaserScan
                 \<lparr>scan_header = \<lparr>stamp = stamp_scan s, frame_id = ''base_footprint''\<rparr>,
                  angle_min = - 2.0944,
                  angle_max = 2.0944,
                  angle_increment = (2 * 2.0944) / 61,
                  range_min = 0.1,
                  range_max = 3,
                  ranges = scan_ranges right_scan front_scan left_scan\<rparr>)]
         else [])
      @ [SendTransform
           \<lparr>tf_header = \<lparr>stamp = stamp_transform s, frame_id = ''odom''\<rparr>,
            child_frame_id = ''base_link'',
            translation = \<lparr>v3_x = x, v3_y = y, v3_z = 0\<rparr>,
            rotation = \<lparr>q_x = qx, q_y = qy, q_z = qz, q_w = qw\<rparr>\<rparr>,
         Publish (odom_pub a) (Odometry
           \<lparr>odom_header = \<lparr>stamp = stamp_odom s, frame_id = ''odom''\<rparr>,
            odom_child_frame_id = ''base_link'',
            pose_position = \<lparr>v3_x = x, v3_y = y, v3_z = 0\<rparr>,
            pose_orientation = \<lparr>q_x = qx, q_y = qy, q_z = qz, q_w = qw\<rparr>,
            twist_linear_x = vx,
            twist_linear_y = vy,
            twist_angular_z = wz\<rparr>)]
      @ (case cam of
           None \<Rightarrow> []
         | Some c \<Rightarrow>
            (case getFrame c of
               None \<Rightarrow> []
             | Some fr \<Rightarrow>
                 [Publish
                    (if getCameraId c = ID_CAMERA_TOP k then front_cam_pub a
                     else if getCameraId c = ID_CAMERA_BOTTOM k then bottom_cam_pub a
                     else depth_cam_pub a)
                    (ImageMsg
                      \<lparr>image_data = fr,
                       image_frame_id = getCameraLink_getName c,
                       encoding =
                         (if getCameraId c = ID_CAMERA_TOP k
                             \<or> getCameraId c = ID_CAMERA_BOTTOM k
                          then ''bgr8'' else ''16UC1'')\<rparr>),
                  Publish
                    (if getCameraId c = ID_CAMERA_TOP k then front_info_pub a
                     else if getCameraId c = ID_CAMERA_BOTTOM k then bottom_info_pub a
                     else depth_info_pub a)
                    (CameraInfo
                      \<lparr>distortion_model = ''plumb_bob'',
                       info_frame_id = getCameraLink_getName c,
                       width = fst (getResolution c),
                       height = snd (getResolution c),
                       info_D = [0, 0, 0, 0, 0],
                       info_K = getCameraIntrinsics c,
                       info_R = [1, 0, 0, 0, 1, 0, 0, 0, 1],
                       info_P = list_insert 7 0 (list_insert 3 0 (getCameraIntrinsics c))
                                  @ [0]\<rparr>)])),
      None)"
    unfolding spin_iteration_def sleep joints lasers odom cam
    by (simp add: then_run_returns) (simp add: returns_def)
  have payload: "scan_ranges (LaserList rs) (LaserList fs) (LaserList ls)
       = rev rs @ replicate 8 (- 1) @ rev fs @ replicate 8 (- 1) @ rev ls
   \<and> list_insert 7 0 (list_insert 3 0 [k0, k1, k2, k3, k4, k5, k6, k7, k8 :: real]) @ [0]
       = [k0, k1, k2, 0, k3, k4, k5, 0, k6, k7, k8, 0]"
    by (simp add: scan_ranges_def Let_def list_insert_def)
  from trace payload show ?thesis by (rule conjI)
qed

theorem iteration_publishes_sensor_state_witness:
  "rate_sleep (example_tick True (Some (example_camera 0))) = None
   \<and> getAnglesPosition (example_tick True (Some (example_camera 0)))
        (joint_dict (example_tick True (Some (example_camera 0)))) = Inr [0.5, 0.5]
   \<and> laser_isActive (example_tick True (Some (example_camera 0))) = Inr True
   \<and> getRightLaserValue (example_tick True (Some (example_camera 0))) = Inr (LaserList [1, 2])
   \<and> getFrontLaserValue (example_tick True (Some (example_camera 0))) = Inr (LaserList [3])
   \<and> getLeftLaserValue (example_tick True (Some (example_camera 0))) = Inr (LaserList [4, 5])
   \<and> getPosition (example_tick True (Some (example_camera 0))) = Inr (1, 2, 0)
   \<and> getQuaternionFromEuler example_pybullet (0, 0, 0) = (0, 0, 0, 1)
   \<and> getBaseVelocity (example_tick True (Some (example_camera 0))) = Inr ((0.1, 0.2, 0), (0, 0, 0.3))
   \<and> getActiveCamera (example_tick True (Some (example_camera 0))) = Inr (Some (example_camera 0))
   \<and> getCameraId (example_camera 0) = ID_CAMERA_TOP example_consts
   \<and> spin_iteration example_consts example_pybullet example_attrs
        (example_tick True (Some (example_camera 0))) =
      ([Sleep 200,
        Publish ''/joint_states'' (JointState
          \<lparr>js_header = \<lparr>stamp = 1, frame_id = ''''\<rparr>,
           js_name = [''HeadYaw'', ''HeadPitch'', ''WheelFL'', ''WheelFR'', ''WheelB''],
           js_position = [0.5, 0.5, 0, 0, 0]\<rparr>),
        Publish ''/pepper/laser'' (LaserScan
          \<lparr>scan_header = \<lparr>stamp = 2, frame_id = ''base_footprint''\<rparr>,
           angle_min = - 2.0944,
           angle_max = 2.0944,
           angle_increment = (2 * 2.0944) / 61,
           range_min = 0.1,
           range_max = 3.0,
           ranges = [2, 1, - 1, - 1, - 1, - 1, - 1, - 1, - 1, - 1,
                     3, - 1, - 1, - 1, - 1, - 1, - 1, - 1, - 1,
                     5, 4]\<rparr>),
        SendTransform
          \<lparr>tf_header = \<lparr>stamp = 3, frame_id = ''odom''\<rparr>,
           child_frame_id = ''base_link'',
           translation = \<lparr>v3_x = 1, v3_y = 2, v3_z = 0\<rparr>,
           rotation = \<lparr>q_x = 0, q_y = 0, q_z = 0, q_w = 1\<rparr>\<rparr>,
        Publish ''odom'' (Odometry
          \<lparr>odom_header = \<lparr>stamp = 4, frame_id = ''odom''\<rparr>,
           odom_child_frame_id = ''base_link'',
           pose_position = \<lparr>v3_x = 1, v3_y = 2, v3_z = 0\<rparr>,
           pose_orientation = \<lparr>q_x = 0, q_y = 0, q_z = 0, q_w = 1\<rparr>,
           twist_linear_x = 0.1,
           twist_linear_y = 0.2,
           twist_angular_z = 0.3\<rparr>),
        Publish ''/pepper/camera/front/image_raw'' (ImageMsg
          \<lparr>image_data = [0, 255],
           image_frame_id = ''CameraTop_optical_frame'',
           encoding = ''bgr8''\<rparr>),
        Publish ''/pepper/camera/front/camera_info'' (CameraInfo
          \<lparr>distortion_model = ''plumb_bob'',
           info_frame_id = ''CameraTop_optical_frame'',
           width = 320,
           height = 240,
           info_D = [0, 0, 0, 0, 0],
           info_K = [1, 0, 2, 0, 1, 3, 0, 0, 1],
           info_R = [1, 0, 0, 0, 1, 0, 0, 0, 1],
           info_P = [1, 0, 2, 0, 0, 1, 3, 0, 0, 0, 1, 0]\<rparr>)],
       None)"
  using iteration_publishes_sensor_state
    [where s = "example_tick True (Some (example_camera 0))" and ps = "[0.5, 0.5]"
       and active = True and right_scan = "LaserList [1, 2]" and front_scan = "LaserList [3]"
       and left_scan = "LaserList [4, 5]" and x = 1 and y = 2 and theta = 0
       and qx = 0 and qy = 0 and qz = 0 and qw = 1
       and vx = "0.1" and vy = "0.2" and vz = 0 and wx = 0 and wy = 0 and wz = "0.3"
       and cam = "Some (example_camera 0)" and k = example_consts and pb = example_pybullet
       and a = example_attrs]
  by (simp add: example_tick_def example_camera_def example_consts_def example_pybullet_def
      example_attrs_def scan_ranges_def list_insert_def Let_def replicate_8)

theorem iteration_raise_counterexample:
  "wrapper_termination example_wrapper = False
   \<and> stop_requested ((example_tick False None)
        \<lparr>getBaseVelocity := Inl (PybulletError ''Not connected to physics server.'')\<rparr>) = False
   \<and> spin_iteration example_consts example_pybullet example_attrs
        ((example_tick False None)
           \<lparr>getBaseVelocity := Inl (PybulletError ''Not connected to physics server.'')\<rparr>) =
      ([Sleep 200,
        Publish ''/joint_states'' (JointState
          \<lparr>js_header = \<lparr>stamp = 1, frame_id = ''''\<rparr>,
           js_name = [''HeadYaw'', ''HeadPitch'', ''WheelFL'', ''WheelFR'', ''WheelB''],
           js_position = [0.5, 0.5, 0, 0, 0]\<rparr>),
        SendTransform
          \<lparr>tf_header = \<lparr>stamp = 3, frame_id = ''odom''\<rparr>,
           child_frame_id = ''base_link'',
           translation = \<lparr>v3_x = 1, v3_y = 2, v3_z = 0\<rparr>,
           rotation = \<lparr>q_x = 0, q_y = 0, q_z = 0, q_w = 1\<rparr>\<rparr>],
       Some (PybulletError ''Not connected to physics server.''))
   \<and> spin example_consts example_pybullet example_Rate example_wrapper
        [(example_tick False None)
           \<lparr>getBaseVelocity := Inl (PybulletError ''Not connected to physics server.'')\<rparr>] =
      (example_wrapper,
       [Sleep 200,
        Publish ''/joint_states'' (JointState
          \<lparr>js_header = \<lparr>stamp = 1, frame_id = ''''\<rparr>,
           js_name = [''HeadYaw'', ''HeadPitch'', ''WheelFL'', ''WheelFR'', ''WheelB''],
           js_position = [0.5, 0.5, 0, 0, 0]\<rparr>),
        SendTransform
          \<lparr>tf_header = \<lparr>stamp = 3, frame_id = ''odom''\<rparr>,
           child_frame_id = ''base_link'',
           translation = \<lparr>v3_x = 1, v3_y = 2, v3_z = 0\<rparr>,
           rotation = \<lparr>q_x = 0, q_y = 0, q_z = 0, q_w = 1\<rparr>\<rparr>,
        Print ''Stopping the ROS wrapper: Not connected to physics server.''],
       Returned)"
  by (simp add: spin_def spin_iteration_def rate_sleep_run_def publish_joint_states_def
      getJointStateMsg_def updateLasers_def broadcastOdom_def then_run_def returns_def
      raises_def read_flag_def example_tick_def example_wrapper_def example_Rate_def
      example_pybullet_def example_attrs_def odom_trans_msg_def Let_def)

text \<open>
  C4 (as the code has it). The worker runs a loop of iterations, each a sleep at the
  configured frequency followed by the publications. While the flag is not found set and
  no iteration raises, the loop goes on, and its trace is the iterations' traces one
  after the other. It ends exactly when the loop test finds \<open>_wrapper_termination\<close>
  set or an iteration raises: in the first case \<open>_spin\<close> returns; in the second an
  \<open>Exception\<close> is caught, reported with the print \<open>Stopping the ROS wrapper: ...\<close>,
  and \<open>_spin\<close> returns with the flag as it was.
\<close>

theorem spin_loop_until_flag_or_exception:
  assumes "launched w = Some a"
    and "rospy_Rate (frequency a) = None"
    and "\<not> wrapper_termination w"
  shows "((snd (snd (spin k pb rospy_Rate w ss)) = StillRunning) =
           (\<forall>s\<in>set ss. \<not> stop_requested s \<and> snd (spin_iteration k pb a s) = None))
   \<and> ((\<forall>s\<in>set p. \<not> stop_requested s \<and> snd (spin_iteration k pb a s) = None) \<longrightarrow>
        spin k pb rospy_Rate w p =
          (w, concat (map (\<lambda>s. fst (spin_iteration k pb a s)) p), StillRunning)
        \<and> (stop_requested s1 \<longrightarrow>
             spin k pb rospy_Rate w (p @ s1 # rest) =
               (w\<lparr>wrapper_termination := True\<rparr>,
                concat (map (\<lambda>s. fst (spin_iteration k pb a s)) p), Returned))
        \<and> (\<not> stop_requested s1 \<and> spin_iteration k pb a s1 = (es, Some e) \<and> is_Exception e \<longrightarrow>
             spin k pb rospy_Rate w (p @ s1 # rest) =
               (w, concat (map (\<lambda>s. fst (spin_iteration k pb a s)) p) @ es
                     @ [Print (''Stopping the ROS wrapper: '' @ str_exn e)], Returned)))
   \<and> (snd (spin_iteration k pb a s) = None \<longrightarrow>
        (\<exists>pubs. fst (spin_iteration k pb a s) = Sleep (frequency a) # pubs
           \<and> (\<forall>e\<in>set pubs. is_publication e)))"
proof (intro conjI impI)
  show "(snd (snd (spin k pb rospy_Rate w ss)) = StillRunning) =
        (\<forall>s\<in>set ss. \<not> stop_requested s \<and> snd (spin_iteration k pb a s) = None)"
    using assms spin_loop_running_iff [of w k pb a ss]
    by (cases "spin_loop k pb a w ss"; cases "snd (snd (spin_loop k pb a w ss))")
       (auto simp: spin_def)
next
  assume quiet: "\<forall>s\<in>set p. \<not> stop_requested s \<and> snd (spin_iteration k pb a s) = None"
  from spin_loop_quiet_prefix [OF assms(3) quiet, of "[]"]
  show "spin k pb rospy_Rate w p =
          (w, concat (map (\<lambda>s. fst (spin_iteration k pb a s)) p), StillRunning)"
    using assms by (simp add: spin_def)
next
  assume quiet: "\<forall>s\<in>set p. \<not> stop_requested s \<and> snd (spin_iteration k pb a s) = None"
    and stop: "stop_requested s1"
  have "spin_loop k pb a w (p @ s1 # rest) =
          (w\<lparr>wrapper_termination := True\<rparr>,
           concat (map (\<lambda>s. fst (spin_iteration k pb a s)) p), Exited)"
    unfolding spin_loop_quiet_prefix [OF assms(3) quiet] spin_loop_stop_requested [OF stop]
    by simp
  then show "spin k pb rospy_Rate w (p @ s1 # rest) =
          (w\<lparr>wrapper_termination := True\<rparr>,
           concat (map (\<lambda>s. fst (spin_iteration k pb a s)) p), Returned)"
    using assms by (simp add: spin_def)
next
  assume quiet: "\<forall>s\<in>set p. \<not> stop_requested s \<and> snd (spin_iteration k pb a s) = None"
    and raised: "\<not> stop_requested s1 \<and> spin_iteration k pb a s1 = (es, Some e) \<and> is_Exception e"
  then have r: "spin_loop k pb a w (s1 # rest) = (w, es, Raised e)"
    using assms(3) by (intro spin_loop_raised) simp_all
  have "spin_loop k pb a w (p @ s1 # rest) =
          (w, concat (map (\<lambda>s. fst (spin_iteration k pb a s)) p) @ es, Raised e)"
    unfolding spin_loop_quiet_prefix [OF assms(3) quiet] r by simp
  with raised show "spin k pb rospy_Rate w (p @ s1 # rest) =
          (w, concat (map (\<lambda>s. fst (spin_iteration k pb a s)) p) @ es
                @ [Print (''Stopping the ROS wrapper: '' @ str_exn e)], Returned)"
    using assms by (simp add: spin_def)
next
  assume "snd (spin_iteration k pb a s) = None"
  then show "\<exists>pubs. fst (spin_iteration k pb a s) = Sleep (frequency a) # pubs
           \<and> (\<forall>e\<in>set pubs. is_publication e)"
    by (rule spin_iteration_sleep_then_publish)
qed

theorem spin_loop_until_flag_or_exception_witness:
  "launched example_wrapper = Some example_attrs
   \<and> example_Rate (frequency example_attrs) = None
   \<and> \<not> wrapper_termination example_wrapper
   \<and> \<not> stop_requested (example_tick False None)
   \<and> snd (spin_iteration example_consts example_pybullet example_attrs (example_tick False None)) = None
   \<and> stop_requested ((example_tick False None)\<lparr>stop_requested := True\<rparr>)
   \<and> spin example_consts example_pybullet example_Rate example_wrapper
        [example_tick False None, (example_tick False None)\<lparr>stop_requested := True\<rparr>] =
      (example_wrapper\<lparr>wrapper_termination := True\<rparr>,
       [Sleep 200,
        Publish ''/joint_states'' (JointState
          \<lparr>js_header = \<lparr>stamp = 1, frame_id = ''''\<rparr>,
           js_name = [''HeadYaw'', ''HeadPitch'', ''WheelFL'', ''WheelFR'', ''WheelB''],
           js_position = [0.5, 0.5, 0, 0, 0]\<rparr>),
        SendTransform
          \<lparr>tf_header = \<lparr>stamp = 3, frame_id = ''odom''\<rparr>,
           child_frame_id = ''base_link'',
           translation = \<lparr>v3_x = 1, v3_y = 2, v3_z = 0\<rparr>,
           rotation = \<lparr>q_x = 0, q_y = 0, q_z = 0, q_w = 1\<rparr>\<rparr>,
        Publish ''odom'' (Odometry
          \<lparr>odom_header = \<lparr>stamp = 4, frame_id = ''odom''\<rparr>,
           odom_child_frame_id = ''base_link'',
           pose_position = \<lparr>v3_x = 1, v3_y = 2, v3_z = 0\<rparr>,
           pose_orientation = \<lparr>q_x = 0, q_y = 0, q_z = 0, q_w = 1\<rparr>,
           twist_linear_x = 0.1,
           twist_linear_y = 0.2,
           twist_angular_z = 0.3\<rparr>)],
       Returned)"
proof -
  have it: "spin_iteration example_consts example_pybullet example_attrs (example_tick False None) =
      ([Sleep 200,
        Publish ''/joint_states'' (JointState
          \<lparr>js_header = \<lparr>stamp = 1, frame_id = ''''\<rparr>,
           js_name = [''HeadYaw'', ''HeadPitch'', ''WheelFL'', ''WheelFR'', ''WheelB''],
           js_position = [0.5, 0.5, 0, 0, 0]\<rparr>),
        SendTransform
          \<lparr>tf_header = \<lparr>stamp = 3, frame_id = ''odom''\<rparr>,
           child_frame_id = ''base_link'',
           translation = \<lparr>v3_x = 1, v3_y = 2, v3_z = 0\<rparr>,
           rotation = \<lparr>q_x = 0, q_y = 0, q_z = 0, q_w = 1\<rparr>\<rparr>,
        Publish ''odom'' (Odometry
          \<lparr>odom_header = \<lparr>stamp = 4, frame_id = ''odom''\<rparr>,
           odom_child_frame_id = ''base_link'',
           pose_position = \<lparr>v3_x = 1, v3_y = 2, v3_z = 0\<rparr>,
           pose_orientation = \<lparr>q_x = 0, q_y = 0, q_z = 0, q_w = 1\<rparr>,
           twist_linear_x = 0.1,
           twist_linear_y = 0.2,
           twist_angular_z = 0.3\<rparr>)],
       None)"
    by (simp add: spin_iteration_def rate_sleep_run_def publish_joint_states_def
        getJointStateMsg_def updateLasers_def broadcastOdom_def broadcastCamera_def
        broadcastCamera_try_def except_AssertionError_def then_run_def returns_def raises_def
        example_tick_def example_consts_def example_pybullet_def
        example_attrs_def odom_trans_msg_def odom_msg_def Let_def)
  have h1: "launched example_wrapper = Some example_attrs"
    by (simp add: example_wrapper_def)
  have h2: "example_Rate (frequency example_attrs) = None"
    by (simp add: example_Rate_def)
  have h3: "\<not> wrapper_termination example_wrapper"
    by (simp add: example_wrapper_def)
  have q: "\<not> stop_requested (example_tick False None)"
    by (simp add: example_tick_def)
  from spin_loop_until_flag_or_exception
      [where w = example_wrapper and a = example_attrs and rospy_Rate = example_Rate
        and p = "[example_tick False None]"
        and ?s1.0 = "(example_tick False None)\<lparr>stop_requested := True\<rparr>"
        and rest = "[]" and k = example_consts and pb = example_pybullet, OF h1 h2 h3]
  show ?thesis using h1 h2 h3 q it by simp
qed

theorem spin_ends_without_flag_counterexample:
  "spin example_consts example_pybullet example_Rate example_wrapper
     [(example_tick False None)\<lparr>rate_sleep := Some (OtherException ''ROS shutdown request'')\<rparr>] =
     (example_wrapper, [Print ''Stopping the ROS wrapper: ROS shutdown request''], Returned)
   \<and> wrapper_termination example_wrapper = False"
  by (simp add: spin_def example_wrapper_def example_Rate_def example_attrs_def
      read_flag_def Let_def spin_iteration_def rate_sleep_run_def then_run_def raises_def
      example_tick_def)



text \<open>
  C3 (as the code has it). Errors are swallowed locally where the code has a handler,
  and only there; every other error reaches the caller. The main loop catches every
  \<open>Exception\<close> raised in an iteration, reports it with the print
  \<open>Stopping the ROS wrapper: ...\<close> and returns, so that no \<open>Exception\<close> raised in
  the loop leaves \<open>_spin\<close>; what is not an \<open>Exception\<close> leaves \<open>_spin\<close> with no
  print, and so does what \<open>rospy.Rate\<close> raises before the \<open>try\<close>.
  \<open>_broadcastCamera\<close> swallows \<open>AssertionError\<close> silently: without an active camera,
  or without a frame, it publishes nothing and returns; any other exception of
  \<open>getActiveCamera\<close> leaves it. \<open>stopWrapper\<close> swallows the \<open>AssertionError\<close> of its
  thread checks and raises nothing. \<open>launchWrapper\<close> catches the \<open>IOError\<close> of
  reading the robot description, prints it and returns; any other exception of that
  step leaves \<open>launchWrapper\<close>, after the publishers and subscribers are made and with
  no print. The constructors and \<open>launchWrapper\<close> raise \<open>pybullet.error\<close> to their
  caller when the import of the ROS stack failed.
\<close>

theorem errors_swallowed_where_handled:
  "(launched w = Some a \<and> rospy_Rate (frequency a) = None
      \<and> spin_loop k pb a w ss = (w1, es, Raised e) \<and> is_Exception e \<longrightarrow>
      spin k pb rospy_Rate w ss =
        (w1, es @ [Print (''Stopping the ROS wrapper: '' @ str_exn e)], Returned))
   \<and> (launched w = Some a \<and> rospy_Rate (frequency a) = None
      \<and> snd (snd (spin k pb rospy_Rate w ss)) = Propagated e' \<longrightarrow> \<not> is_Exception e')
   \<and> snd (broadcastCamera k a s) \<noteq> Some AssertionError
   \<and> (getActiveCamera s = Inr None \<longrightarrow> broadcastCamera k a s = ([], None))
   \<and> (getActiveCamera s = Inr (Some cam) \<and> getFrame cam = None \<longrightarrow>
        broadcastCamera k a s = ([], None))
   \<and> snd (snd (stopWrapper isAlive w0)) = None
   \<and> (\<exists>es0. snd (launchWrapper None (Inl (IOError m)) w0 vp ns freq) =
        (es0 @ [Print (''Could not retrieve robot descrition: '' @ m)], None))
   \<and> (launched w = Some a \<and> rospy_Rate (frequency a) = None
      \<and> spin_loop k pb a w ss = (w1, es, Raised e) \<and> \<not> is_Exception e \<longrightarrow>
      spin k pb rospy_Rate w ss = (w1, es, Propagated e))
   \<and> (launched w = Some a \<and> rospy_Rate (frequency a) = Some e \<longrightarrow>
      spin k pb rospy_Rate w ss = (w, [], Propagated e))
   \<and> (\<not> wrapper_termination w \<and> \<not> stop_requested s \<and> snd (spin_iteration k pb a s) = Some e \<longrightarrow>
      spin_loop k pb a w (s # rest) = (w, fst (spin_iteration k pb a s), Raised e))
   \<and> (getActiveCamera s = Inl e \<and> e \<noteq> AssertionError \<longrightarrow>
      broadcastCamera k a s = ([], Some e))
   \<and> ((\<forall>m'. e \<noteq> IOError m') \<longrightarrow>
      (\<exists>a0. launched (fst (launchWrapper None (Inl e) w0 vp ns freq)) = Some a0
         \<and> snd (launchWrapper None (Inl e) w0 vp ns freq) = (launch_events a0, Some e)))
   \<and> RosWrapper_init (Some mi) = Inl (PybulletError mi)
   \<and> PepperRosWrapper_init (Some mi) = Inl (PybulletError mi)
   \<and> launchWrapper (Some mi) rd w0 vp ns freq = (w0, [], Some (PybulletError mi))"
proof (intro conjI impI)
  assume "launched w = Some a \<and> rospy_Rate (frequency a) = None
      \<and> spin_loop k pb a w ss = (w1, es, Raised e) \<and> is_Exception e"
  then show "spin k pb rospy_Rate w ss =
        (w1, es @ [Print (''Stopping the ROS wrapper: '' @ str_exn e)], Returned)"
    by (simp add: spin_def)
next
  assume h: "launched w = Some a \<and> rospy_Rate (frequency a) = None
      \<and> snd (snd (spin k pb rospy_Rate w ss)) = Propagated e'"
  obtain w2 es2 r2 where loop: "spin_loop k pb a w ss = (w2, es2, r2)"
    by (cases "spin_loop k pb a w ss")
  with h show "\<not> is_Exception e'"
    by (cases r2) (auto simp: spin_def split: if_splits)
next
  show "snd (broadcastCamera k a s) \<noteq> Some AssertionError"
    by (simp add: broadcastCamera_def snd_except_AssertionError)
next
  assume "getActiveCamera s = Inr None"
  then show "broadcastCamera k a s = ([], None)"
    by (simp add: broadcastCamera_def broadcastCamera_try_def except_AssertionError_raises
        returns_def)
next
  assume "getActiveCamera s = Inr (Some cam) \<and> getFrame cam = None"
  then show "broadcastCamera k a s = ([], None)"
    by (simp add: broadcastCamera_def broadcastCamera_try_def except_AssertionError_raises
        returns_def)
next
  show "snd (snd (stopWrapper isAlive w0)) = None"
    by (cases "spin_thread w0"; cases "roslauncher w0")
       (simp_all add: stopWrapper_def Let_def except_AssertionError_raises
          except_AssertionError_returns then_run_returns, simp_all add: returns_def)
next
  show "\<exists>es0. snd (launchWrapper None (Inl (IOError m)) w0 vp ns freq) =
        (es0 @ [Print (''Could not retrieve robot descrition: '' @ m)], None)"
    by (simp add: launchWrapper_def Let_def returns_def)
next
  assume "launched w = Some a \<and> rospy_Rate (frequency a) = None
      \<and> spin_loop k pb a w ss = (w1, es, Raised e) \<and> \<not> is_Exception e"
  then show "spin k pb rospy_Rate w ss = (w1, es, Propagated e)"
    by (simp add: spin_def)
next
  assume "launched w = Some a \<and> rospy_Rate (frequency a) = Some e"
  then show "spin k pb rospy_Rate w ss = (w, [], Propagated e)"
    by (simp add: spin_def)
next
  assume h: "\<not> wrapper_termination w \<and> \<not> stop_requested s
      \<and> snd (spin_iteration k pb a s) = Some e"
  then have "spin_iteration k pb a s = (fst (spin_iteration k pb a s), Some e)"
    by (cases "spin_iteration k pb a s") simp
  with h show "spin_loop k pb a w (s # rest) = (w, fst (spin_iteration k pb a s), Raised e)"
    by (intro spin_loop_raised) simp_all
next
  assume "getActiveCamera s = Inl e \<and> e \<noteq> AssertionError"
  then show "broadcastCamera k a s = ([], Some e)"
    by (cases e)
       (simp_all add: broadcastCamera_def broadcastCamera_try_def except_AssertionError_def
          raises_def)
next
  assume "\<forall>m'. e \<noteq> IOError m'"
  then show "\<exists>a0. launched (fst (launchWrapper None (Inl e) w0 vp ns freq)) = Some a0
         \<and> snd (launchWrapper None (Inl e) w0 vp ns freq) = (launch_events a0, Some e)"
    by (cases e) (simp_all add: launchWrapper_def Let_def)
next
  show "RosWrapper_init (Some mi) = Inl (PybulletError mi)"
    by (simp add: RosWrapper_init_def)
next
  show "PepperRosWrapper_init (Some mi) = Inl (PybulletError mi)"
    by (simp add: PepperRosWrapper_init_def RosWrapper_init_def)
next
  show "launchWrapper (Some mi) rd w0 vp ns freq = (w0, [], Some (PybulletError mi))"
    by (simp add: launchWrapper_def raises_def)
qed

theorem errors_swallowed_where_handled_witness:
  "launched example_wrapper = Some example_attrs
   \<and> example_Rate (frequency example_attrs) = None
   \<and> is_Exception (PybulletError ''Not connected to physics server.'')
   \<and> spin example_consts example_pybullet example_Rate example_wrapper
        [(example_tick False None)
           \<lparr>getPosition := Inl (PybulletError ''Not connected to physics server.'')\<rparr>] =
      (example_wrapper,
       [Sleep 200,
        Publish ''/joint_states'' (JointState
          \<lparr>js_header = \<lparr>stamp = 1, frame_id = ''''\<rparr>,
           js_name = [''HeadYaw'', ''HeadPitch'', ''WheelFL'', ''WheelFR'', ''WheelB''],
           js_position = [0.5, 0.5, 0, 0, 0]\<rparr>),
        Print ''Stopping the ROS wrapper: Not connected to physics server.''],
       Returned)
   \<and> getActiveCamera (example_tick False None) = Inr None
   \<and> broadcastCamera example_consts example_attrs (example_tick False None) = ([], None)
   \<and> \<not> is_Exception (NonException ''KeyboardInterrupt'')
   \<and> spin example_consts example_pybullet example_Rate example_wrapper
        [(example_tick False None)\<lparr>rate_sleep := Some (NonException ''KeyboardInterrupt'')\<rparr>] =
      (example_wrapper, [], Propagated (NonException ''KeyboardInterrupt''))
   \<and> snd (launchWrapper None (Inl (OtherException ''Cannot locate installation of package naoqi_driver''))
            example_wrapper 1 ''/pepper'' 200) =
      (launch_events example_attrs,
       Some (OtherException ''Cannot locate installation of package naoqi_driver''))
   \<and> broadcastCamera example_consts example_attrs
        ((example_tick False None)
           \<lparr>getActiveCamera := Inl (PybulletError ''Not connected to physics server.'')\<rparr>) =
      ([], Some (PybulletError ''Not connected to physics server.''))"
proof -
  let ?T = "(example_tick False None)
           \<lparr>getPosition := Inl (PybulletError ''Not connected to physics server.'')\<rparr>"
  let ?U = "(example_tick False None)\<lparr>rate_sleep := Some (NonException ''KeyboardInterrupt'')\<rparr>"
  let ?V = "(example_tick False None)
           \<lparr>getActiveCamera := Inl (PybulletError ''Not connected to physics server.'')\<rparr>"
  let ?e = "OtherException ''Cannot locate installation of package naoqi_driver''"
  have h1: "launched example_wrapper = Some example_attrs"
    by (simp add: example_wrapper_def)
  have h2: "example_Rate (frequency example_attrs) = None"
    by (simp add: example_Rate_def)
  have h3: "is_Exception (PybulletError ''Not connected to physics server.'')"
    by simp
  have it: "spin_iteration example_consts example_pybullet example_attrs ?T =
      ([Sleep 200,
        Publish ''/joint_states'' (JointState
          \<lparr>js_header = \<lparr>stamp = 1, frame_id = ''''\<rparr>,
           js_name = [''HeadYaw'', ''HeadPitch'', ''WheelFL'', ''WheelFR'', ''WheelB''],
           js_position = [0.5, 0.5, 0, 0, 0]\<rparr>)],
       Some (PybulletError ''Not connected to physics server.''))"
    by (simp add: spin_iteration_def rate_sleep_run_def publish_joint_states_def
        getJointStateMsg_def updateLasers_def broadcastOdom_def then_run_def returns_def
        raises_def example_tick_def example_attrs_def Let_def)
  have loop: "spin_loop example_consts example_pybullet example_attrs example_wrapper [?T] =
      (example_wrapper,
       [Sleep 200,
        Publish ''/joint_states'' (JointState
          \<lparr>js_header = \<lparr>stamp = 1, frame_id = ''''\<rparr>,
           js_name = [''HeadYaw'', ''HeadPitch'', ''WheelFL'', ''WheelFR'', ''WheelB''],
           js_position = [0.5, 0.5, 0, 0, 0]\<rparr>)],
       Raised (PybulletError ''Not connected to physics server.''))"
    by (rule spin_loop_raised [OF _ _ it]) (simp_all add: example_wrapper_def example_tick_def)
  have h4: "getActiveCamera (example_tick False None) = Inr None"
    by (simp add: example_tick_def)
  from errors_swallowed_where_handled
    [where w = example_wrapper and a = example_attrs and rospy_Rate = example_Rate
       and k = example_consts and pb = example_pybullet and ss = "[?T]"
       and ?w1.0 = example_wrapper
       and es = "[Sleep 200,
        Publish ''/joint_states'' (JointState
          \<lparr>js_header = \<lparr>stamp = 1, frame_id = ''''\<rparr>,
           js_name = [''HeadYaw'', ''HeadPitch'', ''WheelFL'', ''WheelFR'', ''WheelB''],
           js_position = [0.5, 0.5, 0, 0, 0]\<rparr>)]"
       and e = "PybulletError ''Not connected to physics server.''"
       and s = "example_tick False None"]
    h1 h2 h3 loop h4
  have c1: "spin example_consts example_pybullet example_Rate example_wrapper [?T] =
      (example_wrapper,
       [Sleep 200,
        Publish ''/joint_states'' (JointState
          \<lparr>js_header = \<lparr>stamp = 1, frame_id = ''''\<rparr>,
           js_name = [''HeadYaw'', ''HeadPitch'', ''WheelFL'', ''WheelFR'', ''WheelB''],
           js_position = [0.5, 0.5, 0, 0, 0]\<rparr>),
        Print ''Stopping the ROS wrapper: Not connected to physics server.''],
       Returned)
     \<and> broadcastCamera example_consts example_attrs (example_tick False None) = ([], None)"
    by simp
  have h5: "\<not> is_Exception (NonException ''KeyboardInterrupt'')"
    by simp
  have loopU: "spin_loop example_consts example_pybullet example_attrs example_wrapper [?U] =
      (example_wrapper, [], Raised (NonException ''KeyboardInterrupt''))"
    by (simp add: read_flag_def spin_iteration_def rate_sleep_run_def then_run_def raises_def
        example_wrapper_def example_tick_def Let_def)
  from errors_swallowed_where_handled
    [where w = example_wrapper and a = example_attrs and rospy_Rate = example_Rate
       and k = example_consts and pb = example_pybullet and ss = "[?U]"
       and ?w1.0 = example_wrapper and es = "[]"
       and e = "NonException ''KeyboardInterrupt''"]
    h1 h2 h5 loopU
  have c2: "spin example_consts example_pybullet example_Rate example_wrapper [?U] =
      (example_wrapper, [], Propagated (NonException ''KeyboardInterrupt''))"
    by simp
  have h6: "\<forall>m'. ?e \<noteq> IOError m'"
    by simp
  have h7: "launched (fst (launchWrapper None (Inl ?e) example_wrapper 1 ''/pepper'' 200)) =
      Some example_attrs"
    by (simp add: launchWrapper_def Let_def example_attrs_def)
  from errors_swallowed_where_handled
    [where e = ?e and ?w0.0 = example_wrapper and vp = 1 and ns = "''/pepper''" and freq = 200]
    h6 h7
  have c3: "snd (launchWrapper None (Inl ?e) example_wrapper 1 ''/pepper'' 200) =
      (launch_events example_attrs, Some ?e)"
    by auto
  have h8: "getActiveCamera ?V = Inl (PybulletError ''Not connected to physics server.'')"
    by (simp add: example_tick_def)
  from errors_swallowed_where_handled
    [where s = ?V and e = "PybulletError ''Not connected to physics server.''"
       and k = example_consts and a = example_attrs]
    h8
  have c4: "broadcastCamera example_consts example_attrs ?V =
      ([], Some (PybulletError ''Not connected to physics server.''))"
    by simp
  from h1 h2 h3 c1 h4 h5 c2 c3 c4 show ?thesis by simp
qed

theorem constructor_raises_counterexample:
  "RosWrapper_init (Some ''No module named rospy'') =
     Inl (PybulletError ''No module named rospy'')"
  by (simp add: RosWrapper_init_def)

end
